theory Spec2Isabelle
  imports Main "HOL-Library.Sublist" "HOL-Library.AList"
begin

section \<open>Python values, errors and text\<close>

text \<open>
  The program is a single Python module, \<^verbatim>\<open>app.py\<close>. Its data are dictionaries whose
  values come from three places: the scraper (always \<^verbatim>\<open>str\<close>), \<^verbatim>\<open>json.loads\<close> applied to
  the reply of the classification capability (any JSON value) and the reply of the search
  capability (a decoded JSON document). \<open>pyval\<close> is the type of these values. A
  dictionary is an association list in insertion order; \<open>map_of\<close> reads it.
  JSON numbers are kept as integers: the program never computes with a number, it only
  stores it or asks for its truth value.

  Strings are \<open>string\<close>: a character is a code point below 256, written \<open>CHR 0xC9\<close>
  outside ASCII. On these, \<^verbatim>\<open>str.lower()\<close> maps the letters A to Z and the letters from
  \<open>0xC0\<close> to \<open>0xDE\<close>, the multiplication sign \<open>0xD7\<close> apart, to the code point 32
  above them and leaves every other character as it is; \<^verbatim>\<open>str.split()\<close> and
  \<^verbatim>\<open>str.strip()\<close> count as whitespace the characters \<open>0x09\<close> to \<open>0x0D\<close>, \<open>0x1C\<close> to
  \<open>0x1F\<close>, the space, \<open>0x85\<close> and \<open>0xA0\<close>. Text with code points from 256 on is outside
  the model.
\<close>

datatype pyval =
    PNone
  | PBool bool
  | PInt int
  | PStr string
  | PList "pyval list"
  | PDict "(string \<times> pyval) list"

text \<open>
  Exceptions are values. \<open>CapabilityError\<close> stands for whatever an external call raises
  (transport errors, a reply without choices) and \<open>JSONDecodeError\<close> for a reply that
  \<^verbatim>\<open>json.loads\<close> rejects.
\<close>

datatype pyerr =
    KeyError
  | TypeError
  | AttributeError
  | IndexError
  | ValueError
  | JSONDecodeError
  | CapabilityError
  | GraphRecursionError

text \<open>
  An f-string is kept as the list of its parts: literal text, and replacement fields
  holding the value that Python formats with \<^verbatim>\<open>str()\<close>. For a value that is a \<^verbatim>\<open>str\<close>
  the formatted field is that string itself.
\<close>

datatype part = Lit string | Fmt pyval

type_synonym ftext = "part list"

fun truthy :: "pyval \<Rightarrow> bool" where
  "truthy PNone = False"
| "truthy (PBool b) = b"
| "truthy (PInt n) = (n \<noteq> 0)"
| "truthy (PStr s) = (s \<noteq> [])"
| "truthy (PList xs) = (xs \<noteq> [])"
| "truthy (PDict kvs) = (kvs \<noteq> [])"

text \<open>The operator \<^verbatim>\<open>+\<close>: concatenation of two strings or two lists, addition of numbers
  (a \<^verbatim>\<open>bool\<close> counts as 0 or 1), \<^verbatim>\<open>TypeError\<close> for every other pair.\<close>

fun py_add :: "pyval \<Rightarrow> pyval \<Rightarrow> pyerr + pyval" where
  "py_add (PStr a) (PStr b) = Inr (PStr (a @ b))"
| "py_add (PList a) (PList b) = Inr (PList (a @ b))"
| "py_add (PInt a) (PInt b) = Inr (PInt (a + b))"
| "py_add (PInt a) (PBool b) = Inr (PInt (a + (if b then 1 else 0)))"
| "py_add (PBool a) (PInt b) = Inr (PInt ((if a then 1 else 0) + b))"
| "py_add (PBool a) (PBool b) = Inr (PInt ((if a then 1 else 0) + (if b then 1 else 0)))"
| "py_add _ _ = Inl TypeError"

definition upper_letters :: string where
  "upper_letters =
     ''ABCDEFGHIJKLMNOPQRSTUVWXYZ'' @
          [CHR 0xC0, CHR 0xC1, CHR 0xC2, CHR 0xC3, CHR 0xC4, CHR 0xC5, CHR 0xC6, CHR 0xC7,
           CHR 0xC8, CHR 0xC9, CHR 0xCA, CHR 0xCB, CHR 0xCC, CHR 0xCD, CHR 0xCE, CHR 0xCF,
           CHR 0xD0, CHR 0xD1, CHR 0xD2, CHR 0xD3, CHR 0xD4, CHR 0xD5, CHR 0xD6, CHR 0xD8,
           CHR 0xD9, CHR 0xDA, CHR 0xDB, CHR 0xDC, CHR 0xDD, CHR 0xDE]"

definition lower_letters :: string where
  "lower_letters =
     ''abcdefghijklmnopqrstuvwxyz'' @
          [CHR 0xE0, CHR 0xE1, CHR 0xE2, CHR 0xE3, CHR 0xE4, CHR 0xE5, CHR 0xE6, CHR 0xE7,
           CHR 0xE8, CHR 0xE9, CHR 0xEA, CHR 0xEB, CHR 0xEC, CHR 0xED, CHR 0xEE, CHR 0xEF,
           CHR 0xF0, CHR 0xF1, CHR 0xF2, CHR 0xF3, CHR 0xF4, CHR 0xF5, CHR 0xF6, CHR 0xF8,
           CHR 0xF9, CHR 0xFA, CHR 0xFB, CHR 0xFC, CHR 0xFD, CHR 0xFE]"

definition lower_char :: "char \<Rightarrow> char" where
  "lower_char c = (case map_of (zip upper_letters lower_letters) c of Some l \<Rightarrow> l | None \<Rightarrow> c)"

definition lower :: "string \<Rightarrow> string" where
  "lower s = map lower_char s"

text \<open>The method call \<^verbatim>\<open>v.lower()\<close>: only a \<^verbatim>\<open>str\<close> has the method.\<close>

fun str_lower :: "pyval \<Rightarrow> pyerr + string" where
  "str_lower (PStr s) = Inr (lower s)"
| "str_lower _ = Inl AttributeError"

text \<open>\<^verbatim>\<open>sub in s\<close> on two strings: \<open>sub\<close> occurs in \<open>s\<close> as a contiguous block.\<close>

fun py_in :: "string \<Rightarrow> string \<Rightarrow> bool" where
  "py_in sub [] = (sub = [])"
| "py_in sub (c # cs) = (prefix sub (c # cs) \<or> py_in sub cs)"

definition is_space :: "char \<Rightarrow> bool" where
  "is_space c \<longleftrightarrow>
     c \<in> set [CHR 0x09, CHR 0x0A, CHR 0x0B, CHR 0x0C, CHR 0x0D,
              CHR 0x1C, CHR 0x1D, CHR 0x1E, CHR 0x1F, CHR 0x20, CHR 0x85, CHR 0xA0]"

text \<open>\<^verbatim>\<open>s.split()\<close> without arguments: the maximal blocks free of whitespace.\<close>

fun split_from :: "string \<Rightarrow> string \<Rightarrow> string list" where
  "split_from cur [] = (if cur = [] then [] else [cur])"
| "split_from cur (c # cs) =
     (if is_space c then (if cur = [] then split_from [] cs else cur # split_from [] cs)
      else split_from (cur @ [c]) cs)"

definition split :: "string \<Rightarrow> string list" where
  "split s = split_from [] s"

definition strip :: "string \<Rightarrow> string" where
  "strip s = rev (dropWhile is_space (rev (dropWhile is_space s)))"

text \<open>\<^verbatim>\<open>out.get(key, dflt)\<close>: only a dictionary has the method.\<close>

fun py_get :: "pyval \<Rightarrow> string \<Rightarrow> pyval \<Rightarrow> pyerr + pyval" where
  "py_get (PDict kvs) key dflt = Inr (case map_of kvs key of Some v \<Rightarrow> v | None \<Rightarrow> dflt)"
| "py_get _ key dflt = Inl AttributeError"

text \<open>\<^verbatim>\<open>key in v\<close> for a string \<open>key\<close>: key membership in a dictionary, element membership
  in a list, substring test in a string, \<^verbatim>\<open>TypeError\<close> for a value that is not iterable.\<close>

fun py_contains :: "pyval \<Rightarrow> string \<Rightarrow> pyerr + bool" where
  "py_contains (PDict kvs) key = Inr (key \<in> set (map fst kvs))"
| "py_contains (PList xs) key = Inr (PStr key \<in> set xs)"
| "py_contains (PStr s) key = Inr (py_in key s)"
| "py_contains _ key = Inl TypeError"

text \<open>\<^verbatim>\<open>v[key]\<close> for a string \<open>key\<close>, and \<^verbatim>\<open>v[0]\<close>. The keys of a decoded JSON object are
  strings, so the integer key 0 is never present in a dictionary.\<close>

fun py_getitem :: "pyval \<Rightarrow> string \<Rightarrow> pyerr + pyval" where
  "py_getitem (PDict kvs) key = (case map_of kvs key of Some v \<Rightarrow> Inr v | None \<Rightarrow> Inl KeyError)"
| "py_getitem _ key = Inl TypeError"

fun py_first :: "pyval \<Rightarrow> pyerr + pyval" where
  "py_first (PList []) = Inl IndexError"
| "py_first (PList (x # xs)) = Inr x"
| "py_first (PStr []) = Inl IndexError"
| "py_first (PStr (c # cs)) = Inr (PStr [c])"
| "py_first (PDict kvs) = Inl KeyError"
| "py_first _ = Inl TypeError"

section \<open>State of the module and of the outside world\<close>

text \<open>
  \<open>GLOBAL_FIELD\<close> is the module's global variable. The two capabilities are external: a
  capability is a function from the number of calls made so far and the text sent to the
  outcome of the call, so that any run of the program is a run of the model. The world
  records the text of every call, in order.

  The outcome of a classification call is \<open>Inr v\<close> when the call returns and
  \<^verbatim>\<open>json.loads\<close> decodes the content of its first choice to \<open>v\<close>, and \<open>Inl e\<close> when the
  call or the decoding raises. The outcome of a search call is the response, or the
  exception raised.
\<close>

record world =
  GLOBAL_FIELD :: string
  llm_calls :: "ftext list"
  search_calls :: "ftext list"

type_synonym Groq = "nat \<Rightarrow> ftext \<Rightarrow> pyerr + pyval"

type_synonym TavilyClient = "nat \<Rightarrow> ftext \<Rightarrow> pyerr + pyval"

record JobState =
  Title :: pyval
  Company :: pyval
  Experience :: pyval
  Description :: pyval
  is_relevant :: pyval
  is_competitor :: pyval
  job_tier :: pyval

type_synonym job = "(string \<times> pyval) list"

definition FIELD_KEYWORDS :: "(string \<times> string) list" where
  "FIELD_KEYWORDS =
     [(''Data Science'', ''data scientist''),
      (''Human Resources'', ''human resources''),
      (''Digital Transformation'', ''digital transformation''),
      (''Cyber Security'', ''cyber security''),
      (''FinTech'', ''fintech''),
      (''Project Management'', ''project management''),
      (''Strategic Management'', ''strategic management''),
      (''Business Management'', ''business management''),
      (''General Management'', ''general management''),
      (''Product Management'', ''product management'')]"

section \<open>Enrichment: the careers page of a company\<close>

text \<open>The body of the \<^verbatim>\<open>try\<close> block of \<^verbatim>\<open>search_with_tavily\<close>, once the response is there:
  \<open>Inr (Some u)\<close> when the \<^verbatim>\<open>return\<close> inside the \<^verbatim>\<open>if\<close> is reached, \<open>Inr None\<close> when the
  condition is false, \<open>Inl e\<close> when an exception is raised.\<close>

definition first_url :: "pyval \<Rightarrow> pyerr + pyval option" where
  "first_url resp =
     (case py_contains resp ''results'' of
        Inl e \<Rightarrow> Inl e
      | Inr False \<Rightarrow> Inr None
      | Inr True \<Rightarrow>
          (case py_getitem resp ''results'' of
             Inl e \<Rightarrow> Inl e
           | Inr rs \<Rightarrow>
               if \<not> truthy rs then Inr None
               else (case py_first rs of
                       Inl e \<Rightarrow> Inl e
                     | Inr r \<Rightarrow>
                         (case py_getitem r ''url'' of
                            Inl e \<Rightarrow> Inl e
                          | Inr u \<Rightarrow> Inr (Some u)))))"

definition search_with_tavily :: "ftext \<Rightarrow> TavilyClient \<Rightarrow> world \<Rightarrow> pyval \<times> world" where
  "search_with_tavily query tavily_client w =
     (let w' = w\<lparr>search_calls := search_calls w @ [query]\<rparr> in
      case tavily_client (length (search_calls w)) query of
        Inl e \<Rightarrow> (PStr [], w')
      | Inr resp \<Rightarrow>
          (case first_url resp of
             Inr (Some u) \<Rightarrow> (u, w')
           | Inr None \<Rightarrow> (PStr [], w')
           | Inl e \<Rightarrow> (PStr [], w')))"

definition get_company_career_page :: "pyval \<Rightarrow> TavilyClient \<Rightarrow> world \<Rightarrow> pyval \<times> world" where
  "get_company_career_page company_name tavily_client w =
     (case search_with_tavily [Fmt company_name, Lit '' careers''] tavily_client w of
        (url, w') \<Rightarrow>
          if truthy url then (url, w')
          else search_with_tavily [Fmt company_name] tavily_client w')"

section \<open>The three stages\<close>

definition variants :: "string \<Rightarrow> string list" where
  "variants field =
     map strip (split (case map_of FIELD_KEYWORDS field of Some k \<Rightarrow> k | None \<Rightarrow> field))
       @ [field]"

text \<open>The body shared by the three \<^verbatim>\<open>try\<close> blocks: one call of the capability, the
  decoding of its reply, and \<^verbatim>\<open>out.get(key, dflt)\<close>.\<close>

definition ask :: "Groq \<Rightarrow> ftext \<Rightarrow> string \<Rightarrow> pyval \<Rightarrow> world \<Rightarrow> (pyerr + pyval) \<times> world" where
  "ask client prompt key dflt w =
     (let w' = w\<lparr>llm_calls := llm_calls w @ [prompt]\<rparr> in
      case client (length (llm_calls w)) prompt of
        Inl e \<Rightarrow> (Inl e, w')
      | Inr out \<Rightarrow> (py_get out key dflt, w'))"

definition relevance_prompt :: "JobState \<Rightarrow> string \<Rightarrow> ftext" where
  "relevance_prompt state field =
     [Lit ''\<newline>Job Title: '', Fmt (Title state),
      Lit ''\<newline>Company: '', Fmt (Company state),
      Lit ''\<newline>Description: '', Fmt (Description state),
      Lit ''\<newline>Is this a genuine '', Fmt (PStr field),
      Lit '' job? Respond {\"is_relevant\":\"Yes\" or \"No\"}.\<newline>'']"

definition check_relevance :: "JobState \<Rightarrow> Groq \<Rightarrow> world \<Rightarrow> (pyerr + JobState) \<times> world" where
  "check_relevance state client w =
     (case py_add (Title state) (PStr '' '') of
        Inl e \<Rightarrow> (Inl e, w)
      | Inr t \<Rightarrow>
     (case py_add t (Description state) of
        Inl e \<Rightarrow> (Inl e, w)
      | Inr td \<Rightarrow>
     (case str_lower td of
        Inl e \<Rightarrow> (Inl e, w)
      | Inr text \<Rightarrow>
          if list_ex (\<lambda>kw. py_in kw text) (variants (GLOBAL_FIELD w))
          then (Inr (state\<lparr>is_relevant := PStr ''Yes''\<rparr>), w)
          else (case ask client (relevance_prompt state (GLOBAL_FIELD w))
                       ''is_relevant'' (PStr ''No'') w of
                  (Inr v, w') \<Rightarrow> (Inr (state\<lparr>is_relevant := v\<rparr>), w')
                | (Inl e, w') \<Rightarrow> (Inr (state\<lparr>is_relevant := PStr ''No''\<rparr>), w')))))"

definition competitor_list :: "string list" where
  "competitor_list =
     [''BYJU'S'', ''Unacademy'', ''Vedantu'', ''Toppr'', ''UpGrad'', ''Simplilearn'',
      ''WhiteHat Jr.'', ''Classplus'', ''Embibe'', ''EduGorilla'', ''iQuanta'',
      ''TrainerCentral'', ''Meritnation'', ''Testbook'', ''Edukart'', ''Adda247'',
      ''CollegeDekho'', ''Leverage Edu'', ''Next Education'', ''Infinity Learn'']"

definition competitor_prompt :: "JobState \<Rightarrow> ftext" where
  "competitor_prompt state =
     [Lit ''Job Company: '', Fmt (Company state),
      Lit ''\<newline>Is it in '', Fmt (PList (map PStr competitor_list)),
      Lit ''? Return {\"is_competitor\": \"Yes\" or \"No\"}.'']"

definition check_competitor :: "JobState \<Rightarrow> Groq \<Rightarrow> world \<Rightarrow> (pyerr + JobState) \<times> world" where
  "check_competitor state client w =
     (case ask client (competitor_prompt state) ''is_competitor'' (PStr ''No'') w of
        (Inr v, w') \<Rightarrow> (Inr (state\<lparr>is_competitor := v\<rparr>), w')
      | (Inl e, w') \<Rightarrow> (Inr (state\<lparr>is_competitor := PStr ''No''\<rparr>), w'))"

definition tier_prompt :: "JobState \<Rightarrow> ftext" where
  "tier_prompt state =
     [Lit ''Job Title: '', Fmt (Title state),
      Lit ''\<newline>Experience: '', Fmt (Experience state),
      Lit ''\<newline>Respond {\"job_tier\": \"Fresher\"/\"Mid\"/\"Senior\"}.'']"

definition determine_tier :: "JobState \<Rightarrow> Groq \<Rightarrow> world \<Rightarrow> (pyerr + JobState) \<times> world" where
  "determine_tier state client w =
     (case ask client (tier_prompt state) ''job_tier'' (PStr ''N/A'') w of
        (Inr v, w') \<Rightarrow> (Inr (state\<lparr>job_tier := v\<rparr>), w')
      | (Inl e, w') \<Rightarrow> (Inr (state\<lparr>job_tier := PStr ''N/A''\<rparr>), w'))"

section \<open>The pipeline\<close>

text \<open>
  \<^verbatim>\<open>build_graph\<close> declares three nodes and the edges between them; the entry and finish
  points are the edges from \<open>START\<close> and to \<open>END\<close>. \<^verbatim>\<open>invoke\<close> belongs to the graph library:
  from \<open>START\<close> it follows the edge out of the current node, runs the node it reaches on
  the current state and stops at \<open>END\<close>, at a node without an edge, or when a node
  raises. The library bounds the number of steps (25 unless configured) and raises when
  the bound is reached. \<open>run_from\<close> is this loop for graphs in which a node has at most
  one outgoing edge, as is the case for the graph built here.
\<close>

type_synonym node = "JobState \<Rightarrow> world \<Rightarrow> (pyerr + JobState) \<times> world"

record StateGraph =
  nodes :: "(string \<times> node) list"
  edges :: "(string \<times> string) list"

definition START :: string where
  "START = ''__start__''"

definition END :: string where
  "END = ''__end__''"

definition build_graph :: "Groq \<Rightarrow> StateGraph" where
  "build_graph client =
     \<lparr>nodes = [(''relevance'', \<lambda>s. check_relevance s client),
               (''competitor'', \<lambda>s. check_competitor s client),
               (''tier'', \<lambda>s. determine_tier s client)],
      edges = [(''relevance'', ''competitor''),
               (''competitor'', ''tier''),
               (START, ''relevance''),
               (''tier'', END)]\<rparr>"

fun run_from :: "nat \<Rightarrow> StateGraph \<Rightarrow> string \<Rightarrow> JobState \<Rightarrow> world \<Rightarrow> (pyerr + JobState) \<times> world" where
  "run_from 0 g n s w = (Inl GraphRecursionError, w)"
| "run_from (Suc k) g n s w =
     (case map_of (edges g) n of
        None \<Rightarrow> (Inr s, w)
      | Some m \<Rightarrow>
          if m = END then (Inr s, w)
          else (case map_of (nodes g) m of
                  None \<Rightarrow> (Inl ValueError, w)
                | Some f \<Rightarrow>
                    (case f s w of
                       (Inl e, w') \<Rightarrow> (Inl e, w')
                     | (Inr s', w') \<Rightarrow> run_from k g m s' w')))"

definition invoke :: "StateGraph \<Rightarrow> JobState \<Rightarrow> world \<Rightarrow> (pyerr + JobState) \<times> world" where
  "invoke g s w = run_from 25 g START s w"

section \<open>Processing one posting\<close>

text \<open>\<^verbatim>\<open>job[key]\<close> on the posting's dictionary.\<close>

definition getitem :: "job \<Rightarrow> string \<Rightarrow> pyerr + pyval" where
  "getitem j key = (case map_of j key of Some v \<Rightarrow> Inr v | None \<Rightarrow> Inl KeyError)"

text \<open>The condition of the \<^verbatim>\<open>if\<close> that follows the pipeline: \<open>Inr True\<close> when the posting
  is dropped. \<^verbatim>\<open>or\<close> does not evaluate its right operand when the left one is true.\<close>

definition dropped :: "JobState \<Rightarrow> pyerr + bool" where
  "dropped result =
     (case str_lower (is_relevant result) of
        Inl e \<Rightarrow> Inl e
      | Inr r \<Rightarrow>
          if r \<noteq> ''yes'' then Inr True
          else (case str_lower (is_competitor result) of
                  Inl e \<Rightarrow> Inl e
                | Inr c \<Rightarrow> Inr (c \<noteq> ''no'')))"

text \<open>
  \<^verbatim>\<open>process_job\<close> changes the dictionary it is given, and the dictionary it returns is
  that same object. The model returns three things: what the call returns (\<open>None\<close> for
  Python's \<^verbatim>\<open>None\<close>) or raises, the caller's dictionary after the call, and the world.
  \<open>after_pipeline\<close> is the part of \<^verbatim>\<open>process_job\<close> that follows the pipeline.
\<close>

definition after_pipeline ::
  "JobState \<Rightarrow> job \<Rightarrow> TavilyClient \<Rightarrow> world \<Rightarrow> (pyerr + job option) \<times> job \<times> world" where
  "after_pipeline result j tavily_client w =
     (case dropped result of
        Inl e \<Rightarrow> (Inl e, j, w)
      | Inr True \<Rightarrow> (Inr None, j, w)
      | Inr False \<Rightarrow>
          (let j1 = AList.update ''Job Tier'' (job_tier result) j in
           case getitem j1 ''Company'' of
             Inl e \<Rightarrow> (Inl e, j1, w)
           | Inr company \<Rightarrow>
               (case get_company_career_page company tavily_client w of
                  (link, w') \<Rightarrow>
                    if \<not> truthy link then (Inr None, j1, w')
                    else (let j2 = AList.update ''Job Link'' link j1
                          in (Inr (Some j2), j2, w')))))"

definition process_job ::
  "job \<Rightarrow> string \<Rightarrow> Groq \<Rightarrow> TavilyClient \<Rightarrow> world \<Rightarrow> (pyerr + job option) \<times> job \<times> world" where
  "process_job j field client tavily_client w =
     (let w0 = w\<lparr>GLOBAL_FIELD := field\<rparr> in
      case getitem j ''Title'' of Inl e \<Rightarrow> (Inl e, j, w0) | Inr t \<Rightarrow>
      (case getitem j ''Company'' of Inl e \<Rightarrow> (Inl e, j, w0) | Inr c \<Rightarrow>
      (case getitem j ''Experience'' of Inl e \<Rightarrow> (Inl e, j, w0) | Inr x \<Rightarrow>
      (case getitem j ''Description'' of Inl e \<Rightarrow> (Inl e, j, w0) | Inr d \<Rightarrow>
      (case invoke (build_graph client)
              \<lparr>Title = t, Company = c, Experience = x, Description = d,
               is_relevant = PNone, is_competitor = PNone, job_tier = PNone\<rparr> w0 of
         (Inl e, w1) \<Rightarrow> (Inl e, j, w1)
       | (Inr result, w1) \<Rightarrow> after_pipeline result j tavily_client w1)))))"

section \<open>Recency and the loop over the scraped rows\<close>

definition recency_phrases :: "string list" where
  "recency_phrases = [''just now'', ''few hours'', ''today'', ''1 day'', ''2 days'', ''3 days'']"

definition is_job_recent :: "pyval \<Rightarrow> pyerr + bool" where
  "is_job_recent date_str =
     (case str_lower date_str of
        Inl e \<Rightarrow> Inl e
      | Inr low \<Rightarrow> Inr (list_ex (\<lambda>x. py_in x low) recency_phrases))"

text \<open>
  The \<^verbatim>\<open>for\<close> loop of \<^verbatim>\<open>scrape_jobs_for_domain\<close>, with the list \<open>processed\<close> as
  accumulator. An exception leaves the loop. In \<^verbatim>\<open>p and is_job_recent(...)\<close> the right
  operand is evaluated only when \<open>p\<close> is a dictionary that is not empty, and it reads the
  posting's dictionary as \<^verbatim>\<open>process_job\<close> left it.
\<close>

fun process_rows ::
  "job list \<Rightarrow> string \<Rightarrow> Groq \<Rightarrow> TavilyClient \<Rightarrow> job list \<Rightarrow> world \<Rightarrow> (pyerr + job list) \<times> world" where
  "process_rows [] domain client tavily_client processed w = (Inr processed, w)"
| "process_rows (j # rest) domain client tavily_client processed w =
     (case process_job j domain client tavily_client w of
        (Inl e, j', w') \<Rightarrow> (Inl e, w')
      | (Inr None, j', w') \<Rightarrow> process_rows rest domain client tavily_client processed w'
      | (Inr (Some p), j', w') \<Rightarrow>
          if p = [] then process_rows rest domain client tavily_client processed w'
          else (case getitem j' ''Posted Date'' of
                  Inl e \<Rightarrow> (Inl e, w')
                | Inr d \<Rightarrow>
                    (case is_job_recent d of
                       Inl e \<Rightarrow> (Inl e, w')
                     | Inr recent \<Rightarrow>
                         process_rows rest domain client tavily_client
                           (if recent then processed @ [p] else processed) w')))"

text \<open>\<^verbatim>\<open>scrape_url\<close> fetches and parses a page: an external capability, given as the function
  \<open>scrape\<close> from the URL to the rows or the exception raised. The assignment to
  \<^verbatim>\<open>GLOBAL_FIELD\<close> in \<^verbatim>\<open>scrape_jobs_for_domain\<close> binds a local variable and has no effect.\<close>

definition scrape_jobs_for_domain ::
  "string \<Rightarrow> Groq \<Rightarrow> TavilyClient \<Rightarrow> (string \<Rightarrow> pyerr + job list) \<Rightarrow> world \<Rightarrow> (pyerr + job list) \<times> world" where
  "scrape_jobs_for_domain domain client tavily_client scrape w =
     (case map_of FIELD_KEYWORDS domain of
        None \<Rightarrow> (Inl KeyError, w)
      | Some keyword \<Rightarrow>
          (case scrape (''https://www.naukri.com/jobs-in-india?k='' @ keyword @ ''&l=india&jobAge=3'') of
             Inl e \<Rightarrow> (Inl e, w)
           | Inr rows \<Rightarrow> process_rows rows domain client tavily_client [] w))"

section \<open>Sample inputs\<close>

text \<open>Concrete postings, capabilities and worlds, on which the theorems below are run.\<close>

definition failing :: Groq where
  "failing i prompt = Inl CapabilityError"

definition say :: "pyval \<Rightarrow> Groq" where
  "say v i prompt = Inr v"

definition world0 :: "string \<Rightarrow> world" where
  "world0 field = \<lparr>GLOBAL_FIELD = field, llm_calls = [], search_calls = []\<rparr>"

definition state_of :: "string \<Rightarrow> string \<Rightarrow> string \<Rightarrow> string \<Rightarrow> JobState" where
  "state_of t c x d =
     \<lparr>Title = PStr t, Company = PStr c, Experience = PStr x, Description = PStr d,
      is_relevant = PNone, is_competitor = PNone, job_tier = PNone\<rparr>"

definition sample_job :: job where
  "sample_job =
     [(''Title'', PStr ''Data Scientist''),
      (''Company'', PStr ''Acme Corp''),
      (''Experience'', PStr ''2 years''),
      (''Description'', PStr ''Looking for a data scientist''),
      (''Posted Date'', PStr ''Today''),
      (''Location'', PStr ''Pune''),
      (''Salary'', PStr ''Not disclosed''),
      (''Skills'', PStr ''python, sql'')]"

definition approving :: Groq where
  "approving i prompt =
     Inr (PDict [(''is_relevant'', PStr ''Yes''), (''is_competitor'', PStr ''No''),
                 (''job_tier'', PStr ''Senior'')])"

definition no_results :: TavilyClient where
  "no_results i query = Inr (PDict [(''results'', PList [])])"

definition found :: "string \<Rightarrow> TavilyClient" where
  "found u i query = Inr (PDict [(''results'', PList [PDict [(''url'', PStr u)]])])"

definition search_down :: TavilyClient where
  "search_down i query = Inl CapabilityError"

definition sample_result :: JobState where
  "sample_result =
     (state_of ''Data Scientist'' ''Acme Corp'' ''2 years'' ''Looking for a data scientist'')
       \<lparr>is_relevant := PStr ''Yes'', is_competitor := PStr ''No'', job_tier := PStr ''Senior''\<rparr>"

definition sample_world :: world where
  "sample_world =
     \<lparr>GLOBAL_FIELD = ''Data Science'',
      llm_calls =
        [competitor_prompt ((state_of ''Data Scientist'' ''Acme Corp'' ''2 years'' ''Looking for a data scientist'')
           \<lparr>is_relevant := PStr ''Yes''\<rparr>),
         tier_prompt ((state_of ''Data Scientist'' ''Acme Corp'' ''2 years'' ''Looking for a data scientist'')
           \<lparr>is_relevant := PStr ''Yes'', is_competitor := PStr ''No''\<rparr>)],
      search_calls = []\<rparr>"



section \<open>Properties\<close>

lemma py_in_sublist: "py_in sub s \<longleftrightarrow> sublist sub s"
  by (induction s) (auto simp: sublist_Cons_right)

lemma list_ex_py_in: "list_ex (\<lambda>x. py_in x t) xs \<longleftrightarrow> (\<exists>p\<in>set xs. \<exists>pre suf. t = pre @ p @ suf)"
  by (simp add: list_ex_iff py_in_sublist sublist_def)

text \<open>
  Claim C7. \<open>is_job_recent\<close> takes nothing but the date string and answers whether one of
  the six fixed phrases occurs, as a contiguous block, in the lower-cased string; two
  strings with the same lower-casing get the same answer. "Posted 2 days ago" and
  "Just Now" are recent, "3 weeks ago" is not.
\<close>

theorem is_job_recent_substring_match:
  "is_job_recent (PStr ''Posted 2 days ago'') = Inr True
   \<and> is_job_recent (PStr ''3 weeks ago'') = Inr False
   \<and> is_job_recent (PStr ''Just Now'') = Inr True
   \<and> is_job_recent (PStr d) = Inr (\<exists>p\<in>set recency_phrases. \<exists>pre suf. lower d = pre @ p @ suf)
   \<and> (lower d = lower d' \<longrightarrow> is_job_recent (PStr d) = is_job_recent (PStr d'))"
proof -
  have a: "is_job_recent (PStr ''Posted 2 days ago'') = Inr True"
    by (simp add: is_job_recent_def recency_phrases_def lower_def lower_char_def upper_letters_def lower_letters_def)
  have b: "is_job_recent (PStr ''3 weeks ago'') = Inr False"
    by (simp add: is_job_recent_def recency_phrases_def lower_def lower_char_def upper_letters_def lower_letters_def)
  have c: "is_job_recent (PStr ''Just Now'') = Inr True"
    by (simp add: is_job_recent_def recency_phrases_def lower_def lower_char_def upper_letters_def lower_letters_def)
  have d: "is_job_recent (PStr d) = Inr (\<exists>p\<in>set recency_phrases. \<exists>pre suf. lower d = pre @ p @ suf)"
    by (simp add: is_job_recent_def list_ex_py_in)
  have e: "lower d = lower d' \<longrightarrow> is_job_recent (PStr d) = is_job_recent (PStr d')"
    by (simp add: is_job_recent_def)
  from a b c d e show ?thesis by blast
qed

theorem is_job_recent_substring_match_witness:
  "lower ''TODAY'' = lower ''today''
   \<and> is_job_recent (PStr ''TODAY'') = is_job_recent (PStr ''today'')
   \<and> is_job_recent (PStr ''today'') = Inr True"
proof -
  have h: "lower ''TODAY'' = lower ''today''"
    by (simp add: lower_def lower_char_def upper_letters_def lower_letters_def)
  have t: "is_job_recent (PStr ''today'') = Inr True"
    by (simp add: is_job_recent_def recency_phrases_def lower_def lower_char_def upper_letters_def lower_letters_def)
  from is_job_recent_substring_match [of "''TODAY''" "''today''"] h t show ?thesis by blast
qed

lemma ask_fail:
  "client (length (llm_calls w)) prompt = Inl e \<Longrightarrow>
   ask client prompt key dflt w = (Inl e, w\<lparr>llm_calls := llm_calls w @ [prompt]\<rparr>)"
  by (simp add: ask_def)

lemma ask_reply:
  "client (length (llm_calls w)) prompt = Inr out \<Longrightarrow>
   ask client prompt key dflt w = (py_get out key dflt, w\<lparr>llm_calls := llm_calls w @ [prompt]\<rparr>)"
  by (simp add: ask_def)

lemma check_relevance_slow:
  assumes "Title state = PStr t" and "Description state = PStr d"
    and "\<not> list_ex (\<lambda>kw. py_in kw (lower (t @ '' '' @ d))) (variants (GLOBAL_FIELD w))"
  shows "check_relevance state client w =
     (case ask client (relevance_prompt state (GLOBAL_FIELD w)) ''is_relevant'' (PStr ''No'') w of
        (Inr v, w') \<Rightarrow> (Inr (state\<lparr>is_relevant := v\<rparr>), w')
      | (Inl e, w') \<Rightarrow> (Inr (state\<lparr>is_relevant := PStr ''No''\<rparr>), w'))"
  using assms by (simp add: check_relevance_def)

lemma check_relevance_fast:
  assumes "Title state = PStr t" and "Description state = PStr d"
    and "list_ex (\<lambda>kw. py_in kw (lower (t @ '' '' @ d))) (variants (GLOBAL_FIELD w))"
  shows "check_relevance state client w = (Inr (state\<lparr>is_relevant := PStr ''Yes''\<rparr>), w)"
  using assms by (simp add: check_relevance_def)

text \<open>
  Claim C4. When the classification call, or the decoding of its reply, raises, the stage
  that made the call still returns normally, with its default in its own slot: "No" for
  relevance (reached only when no keyword matched), "No" for the competitor check, "N/A"
  for the tier. The world then holds exactly one more call than before: the call is not
  repeated.
\<close>

theorem capability_failure_defaults:
  "(Title state = PStr t \<and> Description state = PStr d
      \<and> \<not> list_ex (\<lambda>kw. py_in kw (lower (t @ '' '' @ d))) (variants (GLOBAL_FIELD w))
      \<and> client (length (llm_calls w)) (relevance_prompt state (GLOBAL_FIELD w)) = Inl e
    \<longrightarrow> check_relevance state client w =
          (Inr (state\<lparr>is_relevant := PStr ''No''\<rparr>),
           w\<lparr>llm_calls := llm_calls w @ [relevance_prompt state (GLOBAL_FIELD w)]\<rparr>))
   \<and> (client (length (llm_calls w)) (competitor_prompt state) = Inl e
    \<longrightarrow> check_competitor state client w =
          (Inr (state\<lparr>is_competitor := PStr ''No''\<rparr>),
           w\<lparr>llm_calls := llm_calls w @ [competitor_prompt state]\<rparr>))
   \<and> (client (length (llm_calls w)) (tier_prompt state) = Inl e
    \<longrightarrow> determine_tier state client w =
          (Inr (state\<lparr>job_tier := PStr ''N/A''\<rparr>),
           w\<lparr>llm_calls := llm_calls w @ [tier_prompt state]\<rparr>))"
proof (intro conjI impI)
  assume "Title state = PStr t \<and> Description state = PStr d
      \<and> \<not> list_ex (\<lambda>kw. py_in kw (lower (t @ '' '' @ d))) (variants (GLOBAL_FIELD w))
      \<and> client (length (llm_calls w)) (relevance_prompt state (GLOBAL_FIELD w)) = Inl e"
  then show "check_relevance state client w =
          (Inr (state\<lparr>is_relevant := PStr ''No''\<rparr>),
           w\<lparr>llm_calls := llm_calls w @ [relevance_prompt state (GLOBAL_FIELD w)]\<rparr>)"
    by (simp add: check_relevance_slow ask_fail)
next
  assume "client (length (llm_calls w)) (competitor_prompt state) = Inl e"
  then show "check_competitor state client w =
          (Inr (state\<lparr>is_competitor := PStr ''No''\<rparr>),
           w\<lparr>llm_calls := llm_calls w @ [competitor_prompt state]\<rparr>)"
    by (simp add: check_competitor_def ask_fail)
next
  assume "client (length (llm_calls w)) (tier_prompt state) = Inl e"
  then show "determine_tier state client w =
          (Inr (state\<lparr>job_tier := PStr ''N/A''\<rparr>),
           w\<lparr>llm_calls := llm_calls w @ [tier_prompt state]\<rparr>)"
    by (simp add: determine_tier_def ask_fail)
qed

lemma variants_FinTech: "variants ''FinTech'' = [''fintech'', ''FinTech'']"
  by (simp add: variants_def FIELD_KEYWORDS_def split_def strip_def is_space_def)

theorem capability_failure_defaults_witness:
  "Title (state_of ''Night nurse'' ''Acme'' ''2 years'' ''Ward duty'') = PStr ''Night nurse''
   \<and> Description (state_of ''Night nurse'' ''Acme'' ''2 years'' ''Ward duty'') = PStr ''Ward duty''
   \<and> \<not> list_ex (\<lambda>kw. py_in kw (lower (''Night nurse'' @ '' '' @ ''Ward duty'')))
          (variants (GLOBAL_FIELD (world0 ''FinTech'')))
   \<and> is_relevant (projr (fst (check_relevance (state_of ''Night nurse'' ''Acme'' ''2 years'' ''Ward duty'')
          failing (world0 ''FinTech'')))) = PStr ''No''
   \<and> is_competitor (projr (fst (check_competitor (state_of ''Night nurse'' ''Acme'' ''2 years'' ''Ward duty'')
          failing (world0 ''FinTech'')))) = PStr ''No''
   \<and> job_tier (projr (fst (determine_tier (state_of ''Night nurse'' ''Acme'' ''2 years'' ''Ward duty'')
          failing (world0 ''FinTech'')))) = PStr ''N/A''"
  using capability_failure_defaults
    [of "state_of ''Night nurse'' ''Acme'' ''2 years'' ''Ward duty''" "''Night nurse''" "''Ward duty''"
        "world0 ''FinTech''" failing CapabilityError]
  by (simp add: state_of_def world0_def failing_def variants_FinTech lower_def lower_char_def upper_letters_def lower_letters_def)

lemma split_from_tokens:
  "\<forall>c\<in>set cur. \<not> is_space c \<Longrightarrow>
   \<forall>x\<in>set (split_from cur s). x \<noteq> [] \<and> (\<forall>c\<in>set x. \<not> is_space c)"
proof (induction s arbitrary: cur)
  case Nil
  then show ?case by simp
next
  case (Cons a s)
  have empty: "\<forall>x\<in>set (split_from [] s). x \<noteq> [] \<and> (\<forall>c\<in>set x. \<not> is_space c)"
    by (rule Cons.IH) simp
  show ?case
  proof (cases "is_space a")
    case True
    with empty Cons.prems show ?thesis by auto
  next
    case False
    with Cons.prems have "\<forall>c\<in>set (cur @ [a]). \<not> is_space c" by simp
    then have "\<forall>x\<in>set (split_from (cur @ [a]) s). x \<noteq> [] \<and> (\<forall>c\<in>set x. \<not> is_space c)"
      by (rule Cons.IH)
    with False show ?thesis by simp
  qed
qed

lemma strip_token: "x \<noteq> [] \<Longrightarrow> \<forall>c\<in>set x. \<not> is_space c \<Longrightarrow> strip x = x"
proof -
  assume ne: "x \<noteq> []" and ns: "\<forall>c\<in>set x. \<not> is_space c"
  from ne ns have "\<not> is_space (hd x)" by simp
  with ne have a: "dropWhile is_space x = x" by (cases x) simp_all
  from ne ns have "\<not> is_space (hd (rev x))" by (simp add: hd_rev)
  with ne have "dropWhile is_space (rev x) = rev x" by (cases "rev x") simp_all
  with a show ?thesis by (simp add: strip_def)
qed

lemma token_in_variants:
  assumes "map_of FIELD_KEYWORDS field = Some k" and "kw \<in> set (split k)"
  shows "kw \<in> set (variants field)"
proof -
  from assms(2) have "kw \<noteq> [] \<and> (\<forall>c\<in>set kw. \<not> is_space c)"
    unfolding split_def using split_from_tokens [of "[]"] by simp
  then have "strip kw = kw" by (simp add: strip_token)
  with assms(2) have "kw \<in> strip ` set (split k)"
    by (metis imageI)
  with assms(1) show ?thesis by (simp add: variants_def)
qed

lemma label_in_variants: "field \<in> set (variants field)"
  by (simp add: variants_def)

text \<open>
  Claim C2, as the program has it. The text searched is the title, one space, and the
  description, lower-cased. When a whitespace-separated token of the domain's keyword
  string, or the raw domain label, occurs in that text, the relevance stage stores "Yes"
  and leaves the world as it was: the classification capability is not called.
\<close>

theorem relevance_fast_path:
  assumes "Title state = PStr t" and "Description state = PStr d"
    and "(\<exists>k. map_of FIELD_KEYWORDS (GLOBAL_FIELD w) = Some k \<and> kw \<in> set (split k))
         \<or> kw = GLOBAL_FIELD w"
    and "\<exists>pre suf. lower (t @ '' '' @ d) = pre @ kw @ suf"
  shows "check_relevance state client w = (Inr (state\<lparr>is_relevant := PStr ''Yes''\<rparr>), w)"
proof -
  from assms(3) have "kw \<in> set (variants (GLOBAL_FIELD w))"
    using token_in_variants label_in_variants by blast
  with assms(4) have "list_ex (\<lambda>kw. py_in kw (lower (t @ '' '' @ d))) (variants (GLOBAL_FIELD w))"
    unfolding list_ex_py_in by blast
  with assms(1,2) show ?thesis by (rule check_relevance_fast)
qed

theorem relevance_fast_path_witness:
  "map_of FIELD_KEYWORDS (GLOBAL_FIELD (world0 ''Data Science'')) = Some ''data scientist''
   \<and> ''scientist'' \<in> set (split ''data scientist'')
   \<and> lower (''Data Scientist'' @ '' '' @ ''Looking for a data scientist'')
       = ''data '' @ ''scientist'' @ '' looking for a data scientist''
   \<and> check_relevance (state_of ''Data Scientist'' ''Acme Corp'' ''2 years'' ''Looking for a data scientist'')
        failing (world0 ''Data Science'')
       = (Inr ((state_of ''Data Scientist'' ''Acme Corp'' ''2 years'' ''Looking for a data scientist'')
                 \<lparr>is_relevant := PStr ''Yes''\<rparr>), world0 ''Data Science'')"
proof -
  have a: "map_of FIELD_KEYWORDS (GLOBAL_FIELD (world0 ''Data Science'')) = Some ''data scientist''
             \<and> ''scientist'' \<in> set (split ''data scientist'')"
    by (simp add: world0_def FIELD_KEYWORDS_def split_def is_space_def)
  have b: "lower (''Data Scientist'' @ '' '' @ ''Looking for a data scientist'')
       = ''data '' @ ''scientist'' @ '' looking for a data scientist''"
    by (simp add: lower_def lower_char_def upper_letters_def lower_letters_def)
  have c: "Title (state_of ''Data Scientist'' ''Acme Corp'' ''2 years'' ''Looking for a data scientist'')
             = PStr ''Data Scientist''"
    by (simp add: state_of_def)
  have d: "Description (state_of ''Data Scientist'' ''Acme Corp'' ''2 years'' ''Looking for a data scientist'')
             = PStr ''Looking for a data scientist''"
    by (simp add: state_of_def)
  from a have k: "(\<exists>k. map_of FIELD_KEYWORDS (GLOBAL_FIELD (world0 ''Data Science'')) = Some k
                      \<and> ''scientist'' \<in> set (split k))
                  \<or> ''scientist'' = GLOBAL_FIELD (world0 ''Data Science'')"
    by blast
  from b have e: "\<exists>pre suf. lower (''Data Scientist'' @ '' '' @ ''Looking for a data scientist'')
                    = pre @ ''scientist'' @ suf"
    by blast
  from relevance_fast_path [OF c d k e, of failing] a b show ?thesis by blast
qed

text \<open>
  Claim C2 as stated speaks of the concatenation of title and description. For the domain
  "FinTech", the title "fin" and the description "tech", the lower-cased concatenation
  "fintech" contains the keyword token "fintech", yet the text the program searches is
  "fin tech": the stage calls the capability once and stores its answer, here "No".
\<close>

theorem relevance_fast_path_counterexample:
  "map_of FIELD_KEYWORDS ''FinTech'' = Some ''fintech''
   \<and> ''fintech'' \<in> set (split ''fintech'')
   \<and> py_in ''fintech'' (lower (''fin'' @ ''tech''))
   \<and> fst (check_relevance (state_of ''fin'' ''Acme'' ''2 years'' ''tech'')
             (say (PDict [(''is_relevant'', PStr ''No'')])) (world0 ''FinTech''))
       = Inr ((state_of ''fin'' ''Acme'' ''2 years'' ''tech'')\<lparr>is_relevant := PStr ''No''\<rparr>)
   \<and> length (llm_calls (snd (check_relevance (state_of ''fin'' ''Acme'' ''2 years'' ''tech'')
             (say (PDict [(''is_relevant'', PStr ''No'')])) (world0 ''FinTech'')))) = 1"
  by (simp add: FIELD_KEYWORDS_def split_def is_space_def lower_def lower_char_def upper_letters_def lower_letters_def
      check_relevance_def state_of_def world0_def variants_FinTech ask_def say_def)

text \<open>
  Claim C3, as the program has it. The tier stage makes one call. It stores "N/A" when the
  call or the decoding raises, when the decoded reply is not an object, and when the
  object has no key \<^verbatim>\<open>job_tier\<close>; otherwise it stores the value found under that key,
  whatever that value is.
\<close>

theorem determine_tier_output:
  "determine_tier state client w =
     (Inr (state\<lparr>job_tier :=
             (case client (length (llm_calls w)) (tier_prompt state) of
                Inr (PDict kvs) \<Rightarrow> (case map_of kvs ''job_tier'' of Some v \<Rightarrow> v | None \<Rightarrow> PStr ''N/A'')
              | _ \<Rightarrow> PStr ''N/A'')\<rparr>),
      w\<lparr>llm_calls := llm_calls w @ [tier_prompt state]\<rparr>)"
proof (cases "client (length (llm_calls w)) (tier_prompt state)")
  case (Inl e)
  then show ?thesis
    by (simp add: determine_tier_def ask_fail)
next
  case (Inr out)
  then have a: "ask client (tier_prompt state) ''job_tier'' (PStr ''N/A'') w =
      (py_get out ''job_tier'' (PStr ''N/A''), w\<lparr>llm_calls := llm_calls w @ [tier_prompt state]\<rparr>)"
    by (rule ask_reply)
  show ?thesis
  proof (cases out)
    case (PDict kvs)
    with Inr a show ?thesis
      by (simp add: determine_tier_def split: option.splits)
  qed (use Inr a in \<open>simp_all add: determine_tier_def\<close>)
qed

text \<open>
  Claim C3 as stated says that the tier is always one of "Fresher", "Mid", "Senior" and
  "N/A". A reply that decodes to an object with the tier "Principal" is stored unchanged.
\<close>

theorem determine_tier_counterexample:
  "fst (determine_tier (state_of ''Data Scientist'' ''Acme Corp'' ''2 years'' ''Looking for a data scientist'')
          (say (PDict [(''job_tier'', PStr ''Principal'')])) (world0 ''Data Science''))
     = Inr ((state_of ''Data Scientist'' ''Acme Corp'' ''2 years'' ''Looking for a data scientist'')
              \<lparr>job_tier := PStr ''Principal''\<rparr>)
   \<and> PStr ''Principal'' \<notin> {PStr ''Fresher'', PStr ''Mid'', PStr ''Senior'', PStr ''N/A''}"
  by (simp add: determine_tier_def ask_def say_def)

lemma check_competitor_value:
  "check_competitor s client w =
     (Inr (s\<lparr>is_competitor :=
             (case client (length (llm_calls w)) (competitor_prompt s) of
                Inr (PDict kvs) \<Rightarrow> (case map_of kvs ''is_competitor'' of Some v \<Rightarrow> v | None \<Rightarrow> PStr ''No'')
              | _ \<Rightarrow> PStr ''No'')\<rparr>),
      w\<lparr>llm_calls := llm_calls w @ [competitor_prompt s]\<rparr>)"
proof (cases "client (length (llm_calls w)) (competitor_prompt s)")
  case (Inl e)
  then show ?thesis
    by (simp add: check_competitor_def ask_fail)
next
  case (Inr out)
  then have a: "ask client (competitor_prompt s) ''is_competitor'' (PStr ''No'') w =
      (py_get out ''is_competitor'' (PStr ''No''),
       w\<lparr>llm_calls := llm_calls w @ [competitor_prompt s]\<rparr>)"
    by (rule ask_reply)
  show ?thesis
  proof (cases out)
    case (PDict kvs)
    with Inr a show ?thesis
      by (simp add: check_competitor_def split: option.splits)
  qed (use Inr a in \<open>simp_all add: check_competitor_def\<close>)
qed

lemma determine_tier_value:
  "determine_tier s client w =
     (Inr (s\<lparr>job_tier :=
             (case client (length (llm_calls w)) (tier_prompt s) of
                Inr (PDict kvs) \<Rightarrow> (case map_of kvs ''job_tier'' of Some v \<Rightarrow> v | None \<Rightarrow> PStr ''N/A'')
              | _ \<Rightarrow> PStr ''N/A'')\<rparr>),
      w\<lparr>llm_calls := llm_calls w @ [tier_prompt s]\<rparr>)"
proof (cases "client (length (llm_calls w)) (tier_prompt s)")
  case (Inl e)
  then show ?thesis
    by (simp add: determine_tier_def ask_fail)
next
  case (Inr out)
  then have a: "ask client (tier_prompt s) ''job_tier'' (PStr ''N/A'') w =
      (py_get out ''job_tier'' (PStr ''N/A''), w\<lparr>llm_calls := llm_calls w @ [tier_prompt s]\<rparr>)"
    by (rule ask_reply)
  show ?thesis
  proof (cases out)
    case (PDict kvs)
    with Inr a show ?thesis
      by (simp add: determine_tier_def split: option.splits)
  qed (use Inr a in \<open>simp_all add: determine_tier_def\<close>)
qed

lemma check_relevance_value:
  assumes "Title s = PStr t" and "Description s = PStr d"
    and "\<not> list_ex (\<lambda>kw. py_in kw (lower (t @ '' '' @ d))) (variants (GLOBAL_FIELD w))"
  shows "check_relevance s client w =
     (Inr (s\<lparr>is_relevant :=
             (case client (length (llm_calls w)) (relevance_prompt s (GLOBAL_FIELD w)) of
                Inr (PDict kvs) \<Rightarrow> (case map_of kvs ''is_relevant'' of Some v \<Rightarrow> v | None \<Rightarrow> PStr ''No'')
              | _ \<Rightarrow> PStr ''No'')\<rparr>),
      w\<lparr>llm_calls := llm_calls w @ [relevance_prompt s (GLOBAL_FIELD w)]\<rparr>)"
proof -
  from assms have slow: "check_relevance s client w =
     (case ask client (relevance_prompt s (GLOBAL_FIELD w)) ''is_relevant'' (PStr ''No'') w of
        (Inr v, w') \<Rightarrow> (Inr (s\<lparr>is_relevant := v\<rparr>), w')
      | (Inl e, w') \<Rightarrow> (Inr (s\<lparr>is_relevant := PStr ''No''\<rparr>), w'))"
    by (rule check_relevance_slow)
  show ?thesis
  proof (cases "client (length (llm_calls w)) (relevance_prompt s (GLOBAL_FIELD w))")
    case (Inl e)
    then show ?thesis
      by (simp add: slow ask_fail)
  next
    case (Inr out)
    then have a: "ask client (relevance_prompt s (GLOBAL_FIELD w)) ''is_relevant'' (PStr ''No'') w =
        (py_get out ''is_relevant'' (PStr ''No''),
         w\<lparr>llm_calls := llm_calls w @ [relevance_prompt s (GLOBAL_FIELD w)]\<rparr>)"
      by (rule ask_reply)
    show ?thesis
    proof (cases out)
      case (PDict kvs)
      with Inr a show ?thesis
        by (simp add: slow split: option.splits)
    qed (use Inr a in \<open>simp_all add: slow\<close>)
  qed
qed

lemma invoke_build_graph:
  "invoke (build_graph client) s w =
     (case check_relevance s client w of
        (Inl e, w1) \<Rightarrow> (Inl e, w1)
      | (Inr s1, w1) \<Rightarrow>
          (case check_competitor s1 client w1 of
             (Inl e, w2) \<Rightarrow> (Inl e, w2)
           | (Inr s2, w2) \<Rightarrow>
               (case determine_tier s2 client w2 of
                  (Inl e, w3) \<Rightarrow> (Inl e, w3)
                | (Inr s3, w3) \<Rightarrow> (Inr s3, w3))))"
  by (simp add: invoke_def build_graph_def START_def END_def eval_nat_numeral
      split: prod.splits sum.splits)

lemma process_job_unfold:
  assumes "getitem j ''Title'' = Inr t" and "getitem j ''Company'' = Inr c"
    and "getitem j ''Experience'' = Inr x" and "getitem j ''Description'' = Inr d"
    and "invoke (build_graph client)
           \<lparr>Title = t, Company = c, Experience = x, Description = d,
            is_relevant = PNone, is_competitor = PNone, job_tier = PNone\<rparr>
           (w\<lparr>GLOBAL_FIELD := field\<rparr>) = (Inr result, w1)"
  shows "process_job j field client tavily_client w = after_pipeline result j tavily_client w1"
  using assms by (simp add: process_job_def)

text \<open>
  Claim C8. On a state whose title and description are strings, \<^verbatim>\<open>invoke\<close> on the graph
  of \<^verbatim>\<open>build_graph\<close> is the relevance stage, then the competitor stage on its result, then
  the tier stage on that result. The relevance stage writes \<open>a\<close> into its slot: "Yes" on
  a keyword match, else what the reply to its call decides, "No" by default. The
  competitor stage then makes its call, whatever \<open>a\<close> is, and writes \<open>b\<close>; the tier stage
  then makes its call, whatever \<open>a\<close> and \<open>b\<close> are, and writes \<open>c\<close>. No stage touches
  another slot, so the final state is the initial one with the three slots set once
  each, in this order. \<^verbatim>\<open>process_job\<close> applies its filter to that final state.
\<close>

theorem pipeline_order:
  assumes "Title s = PStr t" and "Description s = PStr d"
  shows
    "let fast = list_ex (\<lambda>kw. py_in kw (lower (t @ '' '' @ d))) (variants (GLOBAL_FIELD w));
         a = (if fast then PStr ''Yes''
              else (case client (length (llm_calls w)) (relevance_prompt s (GLOBAL_FIELD w)) of
                      Inr (PDict kvs) \<Rightarrow>
                        (case map_of kvs ''is_relevant'' of Some v \<Rightarrow> v | None \<Rightarrow> PStr ''No'')
                    | _ \<Rightarrow> PStr ''No''));
         w1 = (if fast then w
               else w\<lparr>llm_calls := llm_calls w @ [relevance_prompt s (GLOBAL_FIELD w)]\<rparr>);
         s1 = s\<lparr>is_relevant := a\<rparr>;
         b = (case client (length (llm_calls w1)) (competitor_prompt s1) of
                Inr (PDict kvs) \<Rightarrow>
                  (case map_of kvs ''is_competitor'' of Some v \<Rightarrow> v | None \<Rightarrow> PStr ''No'')
              | _ \<Rightarrow> PStr ''No'');
         w2 = w1\<lparr>llm_calls := llm_calls w1 @ [competitor_prompt s1]\<rparr>;
         s2 = s1\<lparr>is_competitor := b\<rparr>;
         c = (case client (length (llm_calls w2)) (tier_prompt s2) of
                Inr (PDict kvs) \<Rightarrow>
                  (case map_of kvs ''job_tier'' of Some v \<Rightarrow> v | None \<Rightarrow> PStr ''N/A'')
              | _ \<Rightarrow> PStr ''N/A'');
         w3 = w2\<lparr>llm_calls := llm_calls w2 @ [tier_prompt s2]\<rparr>;
         s3 = s2\<lparr>job_tier := c\<rparr>
     in check_relevance s client w = (Inr s1, w1)
        \<and> check_competitor s1 client w1 = (Inr s2, w2)
        \<and> determine_tier s2 client w2 = (Inr s3, w3)
        \<and> invoke (build_graph client) s w = (Inr s3, w3)
        \<and> s3 = s\<lparr>is_relevant := a, is_competitor := b, job_tier := c\<rparr>
        \<and> (getitem j ''Title'' = Inr (Title s) \<and> getitem j ''Company'' = Inr (Company s)
             \<and> getitem j ''Experience'' = Inr (Experience s)
             \<and> getitem j ''Description'' = Inr (Description s)
             \<and> is_relevant s = PNone \<and> is_competitor s = PNone \<and> job_tier s = PNone
             \<and> w = w0\<lparr>GLOBAL_FIELD := field\<rparr>
           \<longrightarrow> process_job j field client tavily_client w0 =
                 after_pipeline s3 j tavily_client w3)"
proof -
  define fast where "fast = list_ex (\<lambda>kw. py_in kw (lower (t @ '' '' @ d))) (variants (GLOBAL_FIELD w))"
  define a where "a = (if fast then PStr ''Yes''
              else (case client (length (llm_calls w)) (relevance_prompt s (GLOBAL_FIELD w)) of
                      Inr (PDict kvs) \<Rightarrow>
                        (case map_of kvs ''is_relevant'' of Some v \<Rightarrow> v | None \<Rightarrow> PStr ''No'')
                    | _ \<Rightarrow> PStr ''No''))"
  define w1 where "w1 = (if fast then w
               else w\<lparr>llm_calls := llm_calls w @ [relevance_prompt s (GLOBAL_FIELD w)]\<rparr>)"
  define s1 where "s1 = s\<lparr>is_relevant := a\<rparr>"
  define b where "b = (case client (length (llm_calls w1)) (competitor_prompt s1) of
                Inr (PDict kvs) \<Rightarrow>
                  (case map_of kvs ''is_competitor'' of Some v \<Rightarrow> v | None \<Rightarrow> PStr ''No'')
              | _ \<Rightarrow> PStr ''No'')"
  define w2 where "w2 = w1\<lparr>llm_calls := llm_calls w1 @ [competitor_prompt s1]\<rparr>"
  define s2 where "s2 = s1\<lparr>is_competitor := b\<rparr>"
  define c where "c = (case client (length (llm_calls w2)) (tier_prompt s2) of
                Inr (PDict kvs) \<Rightarrow>
                  (case map_of kvs ''job_tier'' of Some v \<Rightarrow> v | None \<Rightarrow> PStr ''N/A'')
              | _ \<Rightarrow> PStr ''N/A'')"
  define w3 where "w3 = w2\<lparr>llm_calls := llm_calls w2 @ [tier_prompt s2]\<rparr>"
  define s3 where "s3 = s2\<lparr>job_tier := c\<rparr>"
  have r: "check_relevance s client w = (Inr s1, w1)"
  proof (cases fast)
    case True
    with assms have "check_relevance s client w = (Inr (s\<lparr>is_relevant := PStr ''Yes''\<rparr>), w)"
      unfolding fast_def by (rule check_relevance_fast)
    with True show ?thesis by (simp add: s1_def a_def w1_def)
  next
    case False
    with assms have "check_relevance s client w =
     (Inr (s\<lparr>is_relevant :=
             (case client (length (llm_calls w)) (relevance_prompt s (GLOBAL_FIELD w)) of
                Inr (PDict kvs) \<Rightarrow> (case map_of kvs ''is_relevant'' of Some v \<Rightarrow> v | None \<Rightarrow> PStr ''No'')
              | _ \<Rightarrow> PStr ''No'')\<rparr>),
      w\<lparr>llm_calls := llm_calls w @ [relevance_prompt s (GLOBAL_FIELD w)]\<rparr>)"
      unfolding fast_def by (rule check_relevance_value)
    with False show ?thesis by (simp add: s1_def a_def w1_def)
  qed
  have k: "check_competitor s1 client w1 = (Inr s2, w2)"
    unfolding s2_def b_def w2_def by (rule check_competitor_value)
  have t: "determine_tier s2 client w2 = (Inr s3, w3)"
    unfolding s3_def c_def w3_def by (rule determine_tier_value)
  have i: "invoke (build_graph client) s w = (Inr s3, w3)"
    by (simp only: invoke_build_graph r k t prod.case sum.case)
  have e: "s3 = s\<lparr>is_relevant := a, is_competitor := b, job_tier := c\<rparr>"
    by (simp add: s3_def s2_def s1_def)
  have p: "getitem j ''Title'' = Inr (Title s) \<and> getitem j ''Company'' = Inr (Company s)
             \<and> getitem j ''Experience'' = Inr (Experience s)
             \<and> getitem j ''Description'' = Inr (Description s)
             \<and> is_relevant s = PNone \<and> is_competitor s = PNone \<and> job_tier s = PNone
             \<and> w = w0\<lparr>GLOBAL_FIELD := field\<rparr>
           \<longrightarrow> process_job j field client tavily_client w0 =
                 after_pipeline s3 j tavily_client w3"
  proof
    assume h: "getitem j ''Title'' = Inr (Title s) \<and> getitem j ''Company'' = Inr (Company s)
             \<and> getitem j ''Experience'' = Inr (Experience s)
             \<and> getitem j ''Description'' = Inr (Description s)
             \<and> is_relevant s = PNone \<and> is_competitor s = PNone \<and> job_tier s = PNone
             \<and> w = w0\<lparr>GLOBAL_FIELD := field\<rparr>"
    then have rec: "\<lparr>Title = Title s, Company = Company s, Experience = Experience s,
                 Description = Description s,
                 is_relevant = PNone, is_competitor = PNone, job_tier = PNone\<rparr> = s"
      by (cases s) simp
    from i h have i': "invoke (build_graph client) s (w0\<lparr>GLOBAL_FIELD := field\<rparr>) = (Inr s3, w3)"
      by simp
    show "process_job j field client tavily_client w0 = after_pipeline s3 j tavily_client w3"
    proof (rule process_job_unfold)
      from h show "getitem j ''Title'' = Inr (Title s)" by blast
      from h show "getitem j ''Company'' = Inr (Company s)" by blast
      from h show "getitem j ''Experience'' = Inr (Experience s)" by blast
      from h show "getitem j ''Description'' = Inr (Description s)" by blast
      show "invoke (build_graph client)
           \<lparr>Title = Title s, Company = Company s, Experience = Experience s,
            Description = Description s,
            is_relevant = PNone, is_competitor = PNone, job_tier = PNone\<rparr>
           (w0\<lparr>GLOBAL_FIELD := field\<rparr>) = (Inr s3, w3)"
        unfolding rec by (rule i')
    qed
  qed
  from r k t i e p show ?thesis
    unfolding Let_def fast_def [symmetric] a_def [symmetric] w1_def [symmetric] s1_def [symmetric]
      b_def [symmetric] w2_def [symmetric] s2_def [symmetric] c_def [symmetric]
      w3_def [symmetric] s3_def [symmetric]
    by blast
qed



lemma getitem_update_other:
  "k \<noteq> k' \<Longrightarrow> getitem (AList.update k' v j) k = getitem j k"
  by (simp add: getitem_def AList.update_conv')

lemma after_pipeline_kept:
  assumes "dropped result = Inr False" and "getitem j ''Company'' = Inr c"
    and "get_company_career_page c tavily_client w = (link, w')"
  shows "after_pipeline result j tavily_client w =
     (if \<not> truthy link then (Inr None, AList.update ''Job Tier'' (job_tier result) j, w')
      else (Inr (Some (AList.update ''Job Link'' link (AList.update ''Job Tier'' (job_tier result) j))),
            AList.update ''Job Link'' link (AList.update ''Job Tier'' (job_tier result) j), w'))"
proof -
  have "getitem (AList.update ''Job Tier'' (job_tier result) j) ''Company'' = Inr c"
    using assms(2) by (simp add: getitem_update_other)
  with assms(1,3) show ?thesis
    by (simp add: after_pipeline_def Let_def)
qed





lemma search_world:
  "snd (search_with_tavily q tav w) = w\<lparr>search_calls := search_calls w @ [q]\<rparr>"
  by (simp add: search_with_tavily_def Let_def split: sum.splits option.splits)

lemma search_pair:
  "search_with_tavily q tav w =
     (fst (search_with_tavily q tav w), w\<lparr>search_calls := search_calls w @ [q]\<rparr>)"
  by (metis search_world prod.collapse)

lemma search_raises:
  "tav (length (search_calls w)) q = Inl e \<Longrightarrow>
   search_with_tavily q tav w = (PStr [], w\<lparr>search_calls := search_calls w @ [q]\<rparr>)"
  by (simp add: search_with_tavily_def)

lemma search_first_url:
  assumes "tav (length (search_calls w)) q = Inr (PDict resp)"
    and "map_of resp ''results'' = Some (PList (PDict r # rs))"
    and "map_of r ''url'' = Some u"
  shows "search_with_tavily q tav w = (u, w\<lparr>search_calls := search_calls w @ [q]\<rparr>)"
proof -
  from assms(2) have "''results'' \<in> fst ` set resp"
    by (metis domI dom_map_of_conv_image_fst)
  with assms(2,3) have "first_url (PDict resp) = Inr (Some u)"
    by (simp add: first_url_def)
  with assms(1) show ?thesis
    by (simp add: search_with_tavily_def)
qed

lemma career_page_first:
  assumes "truthy (fst (search_with_tavily [Fmt company, Lit '' careers''] tav w))"
  shows "get_company_career_page company tav w =
     (fst (search_with_tavily [Fmt company, Lit '' careers''] tav w),
      w\<lparr>search_calls := search_calls w @ [[Fmt company, Lit '' careers'']]\<rparr>)"
proof -
  obtain u where s: "search_with_tavily [Fmt company, Lit '' careers''] tav w =
      (u, w\<lparr>search_calls := search_calls w @ [[Fmt company, Lit '' careers'']]\<rparr>)"
    using search_pair by blast
  with assms have "truthy u" by simp
  with s show ?thesis by (simp add: get_company_career_page_def)
qed

lemma career_page_second:
  assumes "\<not> truthy (fst (search_with_tavily [Fmt company, Lit '' careers''] tav w))"
  shows "get_company_career_page company tav w =
     search_with_tavily [Fmt company] tav
       (w\<lparr>search_calls := search_calls w @ [[Fmt company, Lit '' careers'']]\<rparr>)"
proof -
  obtain u where s: "search_with_tavily [Fmt company, Lit '' careers''] tav w =
      (u, w\<lparr>search_calls := search_calls w @ [[Fmt company, Lit '' careers'']]\<rparr>)"
    using search_pair by blast
  with assms have "\<not> truthy u" by simp
  with s show ?thesis by (simp add: get_company_career_page_def)
qed

lemma career_page_no_link:
  assumes "get_company_career_page company tav w = (link, w')" and "\<not> truthy link"
  shows "search_calls w' = search_calls w @ [[Fmt company, Lit '' careers''], [Fmt company]]"
proof (cases "truthy (fst (search_with_tavily [Fmt company, Lit '' careers''] tav w))")
  case True
  with assms show ?thesis by (simp add: career_page_first)
next
  case False
  then have "get_company_career_page company tav w =
     search_with_tavily [Fmt company] tav
       (w\<lparr>search_calls := search_calls w @ [[Fmt company, Lit '' careers'']]\<rparr>)"
    by (rule career_page_second)
  with assms(1) have "w' = snd (search_with_tavily [Fmt company] tav
       (w\<lparr>search_calls := search_calls w @ [[Fmt company, Lit '' careers'']]\<rparr>))"
    by simp
  then show ?thesis by (simp add: search_world)
qed

lemma first_url_Some:
  assumes "first_url resp = Inr (Some u)"
  shows "\<exists>kvs r rs. resp = PDict kvs \<and> map_of kvs ''results'' = Some (PList (PDict r # rs))
           \<and> map_of r ''url'' = Some u"
proof (cases resp)
  case (PDict kvs)
  show ?thesis
  proof (cases "map_of kvs ''results''")
    case None
    with PDict assms show ?thesis
      by (simp add: first_url_def split: bool.splits)
  next
    case (Some res)
    with PDict assms have f: "truthy res" and g: "(case py_first res of
                       Inl e \<Rightarrow> Inl e
                     | Inr r \<Rightarrow>
                         (case py_getitem r ''url'' of
                            Inl e \<Rightarrow> Inl e
                          | Inr u \<Rightarrow> Inr (Some u))) = Inr (Some u)"
      by (auto simp: first_url_def split: bool.splits if_splits)
    from g obtain r where r: "py_first res = Inr r" and u: "py_getitem r ''url'' = Inr u"
      by (auto split: sum.splits)
    from u obtain rk where rk: "r = PDict rk" and uk: "map_of rk ''url'' = Some u"
      by (cases r) (auto split: option.splits)
    from r rk obtain rs where "res = PList (PDict rk # rs)"
      by (cases res rule: py_first.cases) auto
    with PDict Some uk show ?thesis by blast
  qed
qed (use assms in \<open>auto simp: first_url_def split: bool.splits\<close>)

lemma search_no_hit:
  assumes "\<forall>kvs r rs u. \<not> (tav (length (search_calls w)) q = Inr (PDict kvs)
              \<and> map_of kvs ''results'' = Some (PList (PDict r # rs)) \<and> map_of r ''url'' = Some u)"
  shows "search_with_tavily q tav w = (PStr [], w\<lparr>search_calls := search_calls w @ [q]\<rparr>)"
proof (cases "tav (length (search_calls w)) q")
  case (Inl e)
  then show ?thesis by (rule search_raises)
next
  case (Inr resp)
  have "\<forall>u. first_url resp \<noteq> Inr (Some u)"
  proof (intro allI notI)
    fix u assume "first_url resp = Inr (Some u)"
    then obtain kvs r rs where "resp = PDict kvs"
      and "map_of kvs ''results'' = Some (PList (PDict r # rs))" and "map_of r ''url'' = Some u"
      using first_url_Some by blast
    with Inr assms show False by blast
  qed
  with Inr show ?thesis
    by (cases "first_url resp") (auto simp: search_with_tavily_def Let_def split: option.splits)
qed

lemma search_no_url:
  assumes "\<forall>kvs r rs u. tav (length (search_calls w)) q = Inr (PDict kvs)
              \<and> map_of kvs ''results'' = Some (PList (PDict r # rs)) \<and> map_of r ''url'' = Some u
              \<longrightarrow> \<not> truthy u"
  shows "\<not> truthy (fst (search_with_tavily q tav w))"
proof (cases "\<exists>kvs r rs u. tav (length (search_calls w)) q = Inr (PDict kvs)
              \<and> map_of kvs ''results'' = Some (PList (PDict r # rs)) \<and> map_of r ''url'' = Some u")
  case True
  then obtain kvs r rs u where h: "tav (length (search_calls w)) q = Inr (PDict kvs)"
    "map_of kvs ''results'' = Some (PList (PDict r # rs))" "map_of r ''url'' = Some u"
    by blast
  then have "search_with_tavily q tav w = (u, w\<lparr>search_calls := search_calls w @ [q]\<rparr>)"
    by (rule search_first_url)
  moreover from assms h have "\<not> truthy u" by blast
  ultimately show ?thesis by simp
next
  case False
  then have "search_with_tavily q tav w = (PStr [], w\<lparr>search_calls := search_calls w @ [q]\<rparr>)"
    using search_no_hit [of tav w q] by blast
  then show ?thesis by simp
qed

text \<open>
  Claim C5. \<^verbatim>\<open>get_company_career_page\<close> first searches for the company name followed by
  " careers". A search returns the \<^verbatim>\<open>url\<close> of the first result of the response, and the
  empty string whenever the response has no such first result or the search capability
  raises. When the first search yields a URL (a value that counts as true) that URL is
  returned and no other search is made; otherwise, and only then, the bare company name
  is searched and the result of that search is returned, so that the resolver returns
  the empty string when neither response has a first result or both searches raise, and
  nothing that counts as true when neither yields a URL. Neither function has an error
  result: every exception is caught inside \<^verbatim>\<open>search_with_tavily\<close>.
\<close>

theorem career_page_resolution:
  "let n = length (search_calls w);
       q1 = [Fmt company, Lit '' careers''];
       q2 = [Fmt company];
       w1 = w\<lparr>search_calls := search_calls w @ [q1]\<rparr>;
       w2 = w\<lparr>search_calls := search_calls w @ [q1, q2]\<rparr>
   in
     (tav n q1 = Inr (PDict kvs) \<and> map_of kvs ''results'' = Some (PList (PDict r # rs))
        \<and> map_of r ''url'' = Some u \<and> truthy u
      \<longrightarrow> get_company_career_page company tav w = (u, w1))
   \<and> ((\<forall>kvs r rs u. tav n q1 = Inr (PDict kvs)
            \<and> map_of kvs ''results'' = Some (PList (PDict r # rs)) \<and> map_of r ''url'' = Some u
            \<longrightarrow> \<not> truthy u)
      \<longrightarrow> get_company_career_page company tav w = search_with_tavily q2 tav w1
          \<and> snd (get_company_career_page company tav w) = w2)
   \<and> ((\<forall>kvs r rs u. tav n q1 = Inr (PDict kvs)
            \<and> map_of kvs ''results'' = Some (PList (PDict r # rs)) \<and> map_of r ''url'' = Some u
            \<longrightarrow> \<not> truthy u)
       \<and> (\<forall>kvs r rs u. tav (Suc n) q2 = Inr (PDict kvs)
            \<and> map_of kvs ''results'' = Some (PList (PDict r # rs)) \<and> map_of r ''url'' = Some u
            \<longrightarrow> \<not> truthy u)
      \<longrightarrow> \<not> truthy (fst (get_company_career_page company tav w)))
   \<and> ((\<forall>kvs r rs u. \<not> (tav n q1 = Inr (PDict kvs)
            \<and> map_of kvs ''results'' = Some (PList (PDict r # rs)) \<and> map_of r ''url'' = Some u))
       \<and> (\<forall>kvs r rs u. \<not> (tav (Suc n) q2 = Inr (PDict kvs)
            \<and> map_of kvs ''results'' = Some (PList (PDict r # rs)) \<and> map_of r ''url'' = Some u))
      \<longrightarrow> get_company_career_page company tav w = (PStr [], w2))
   \<and> (tav n q1 = Inl e \<and> tav (Suc n) q2 = Inl e'
      \<longrightarrow> get_company_career_page company tav w = (PStr [], w2))
   \<and> (tav n q = Inr (PDict kvs) \<and> map_of kvs ''results'' = Some (PList (PDict r # rs))
        \<and> map_of r ''url'' = Some u
      \<longrightarrow> search_with_tavily q tav w = (u, w\<lparr>search_calls := search_calls w @ [q]\<rparr>))
   \<and> ((\<forall>kvs r rs u. \<not> (tav n q = Inr (PDict kvs)
            \<and> map_of kvs ''results'' = Some (PList (PDict r # rs)) \<and> map_of r ''url'' = Some u))
      \<longrightarrow> search_with_tavily q tav w = (PStr [], w\<lparr>search_calls := search_calls w @ [q]\<rparr>))"
proof -
  define n where "n = length (search_calls w)"
  define q1 where "q1 = [Fmt company, Lit '' careers'']"
  define q2 where "q2 = [Fmt company]"
  define w1 where "w1 = w\<lparr>search_calls := search_calls w @ [q1]\<rparr>"
  define w2 where "w2 = w\<lparr>search_calls := search_calls w @ [q1, q2]\<rparr>"
  have n1: "length (search_calls w1) = Suc n"
    by (simp add: w1_def n_def)
  have w12: "w1\<lparr>search_calls := search_calls w1 @ [q2]\<rparr> = w2"
    by (simp add: w1_def w2_def)
  have second: "get_company_career_page company tav w = search_with_tavily q2 tav w1
          \<and> snd (get_company_career_page company tav w) = w2"
    if "\<forall>kvs r rs u. tav n q1 = Inr (PDict kvs)
            \<and> map_of kvs ''results'' = Some (PList (PDict r # rs)) \<and> map_of r ''url'' = Some u
            \<longrightarrow> \<not> truthy u"
  proof -
    from that have "\<not> truthy (fst (search_with_tavily q1 tav w))"
      unfolding n_def by (rule search_no_url)
    then have "get_company_career_page company tav w = search_with_tavily q2 tav w1"
      unfolding q1_def q2_def w1_def by (rule career_page_second)
    then show ?thesis
      by (simp add: search_world w12)
  qed
  have c1: "tav n q1 = Inr (PDict kvs) \<and> map_of kvs ''results'' = Some (PList (PDict r # rs))
        \<and> map_of r ''url'' = Some u \<and> truthy u
      \<longrightarrow> get_company_career_page company tav w = (u, w1)"
  proof
    assume h: "tav n q1 = Inr (PDict kvs) \<and> map_of kvs ''results'' = Some (PList (PDict r # rs))
        \<and> map_of r ''url'' = Some u \<and> truthy u"
    then have s: "search_with_tavily q1 tav w = (u, w1)"
      unfolding n_def w1_def by (simp add: search_first_url)
    with h have "truthy (fst (search_with_tavily q1 tav w))" by simp
    then have "get_company_career_page company tav w =
        (fst (search_with_tavily q1 tav w), w1)"
      unfolding q1_def w1_def by (rule career_page_first)
    with s show "get_company_career_page company tav w = (u, w1)" by simp
  qed
  have c2: "(\<forall>kvs r rs u. tav n q1 = Inr (PDict kvs)
            \<and> map_of kvs ''results'' = Some (PList (PDict r # rs)) \<and> map_of r ''url'' = Some u
            \<longrightarrow> \<not> truthy u)
      \<longrightarrow> get_company_career_page company tav w = search_with_tavily q2 tav w1
          \<and> snd (get_company_career_page company tav w) = w2"
    using second by blast
  have c3: "(\<forall>kvs r rs u. tav n q1 = Inr (PDict kvs)
            \<and> map_of kvs ''results'' = Some (PList (PDict r # rs)) \<and> map_of r ''url'' = Some u
            \<longrightarrow> \<not> truthy u)
       \<and> (\<forall>kvs r rs u. tav (Suc n) q2 = Inr (PDict kvs)
            \<and> map_of kvs ''results'' = Some (PList (PDict r # rs)) \<and> map_of r ''url'' = Some u
            \<longrightarrow> \<not> truthy u)
      \<longrightarrow> \<not> truthy (fst (get_company_career_page company tav w))"
  proof
    assume h: "(\<forall>kvs r rs u. tav n q1 = Inr (PDict kvs)
            \<and> map_of kvs ''results'' = Some (PList (PDict r # rs)) \<and> map_of r ''url'' = Some u
            \<longrightarrow> \<not> truthy u)
       \<and> (\<forall>kvs r rs u. tav (Suc n) q2 = Inr (PDict kvs)
            \<and> map_of kvs ''results'' = Some (PList (PDict r # rs)) \<and> map_of r ''url'' = Some u
            \<longrightarrow> \<not> truthy u)"
    then have g: "get_company_career_page company tav w = search_with_tavily q2 tav w1"
      using second by blast
    from h have "\<forall>kvs r rs u. tav (length (search_calls w1)) q2 = Inr (PDict kvs)
            \<and> map_of kvs ''results'' = Some (PList (PDict r # rs)) \<and> map_of r ''url'' = Some u
            \<longrightarrow> \<not> truthy u"
      unfolding n1 by blast
    then have "\<not> truthy (fst (search_with_tavily q2 tav w1))"
      by (rule search_no_url)
    with g show "\<not> truthy (fst (get_company_career_page company tav w))" by simp
  qed
  have c4: "(\<forall>kvs r rs u. \<not> (tav n q1 = Inr (PDict kvs)
            \<and> map_of kvs ''results'' = Some (PList (PDict r # rs)) \<and> map_of r ''url'' = Some u))
       \<and> (\<forall>kvs r rs u. \<not> (tav (Suc n) q2 = Inr (PDict kvs)
            \<and> map_of kvs ''results'' = Some (PList (PDict r # rs)) \<and> map_of r ''url'' = Some u))
      \<longrightarrow> get_company_career_page company tav w = (PStr [], w2)"
  proof
    assume h: "(\<forall>kvs r rs u. \<not> (tav n q1 = Inr (PDict kvs)
            \<and> map_of kvs ''results'' = Some (PList (PDict r # rs)) \<and> map_of r ''url'' = Some u))
       \<and> (\<forall>kvs r rs u. \<not> (tav (Suc n) q2 = Inr (PDict kvs)
            \<and> map_of kvs ''results'' = Some (PList (PDict r # rs)) \<and> map_of r ''url'' = Some u))"
    then have g: "get_company_career_page company tav w = search_with_tavily q2 tav w1"
      using second by blast
    from h have "\<forall>kvs r rs u. \<not> (tav (length (search_calls w1)) q2 = Inr (PDict kvs)
            \<and> map_of kvs ''results'' = Some (PList (PDict r # rs)) \<and> map_of r ''url'' = Some u)"
      unfolding n1 by blast
    then have "search_with_tavily q2 tav w1 = (PStr [], w1\<lparr>search_calls := search_calls w1 @ [q2]\<rparr>)"
      by (rule search_no_hit)
    with g show "get_company_career_page company tav w = (PStr [], w2)"
      by (simp add: w12)
  qed
  have c5: "tav n q1 = Inl e \<and> tav (Suc n) q2 = Inl e'
      \<longrightarrow> get_company_career_page company tav w = (PStr [], w2)"
    using c4 by simp
  have c6: "tav n q = Inr (PDict kvs) \<and> map_of kvs ''results'' = Some (PList (PDict r # rs))
        \<and> map_of r ''url'' = Some u
      \<longrightarrow> search_with_tavily q tav w = (u, w\<lparr>search_calls := search_calls w @ [q]\<rparr>)"
    unfolding n_def by (simp add: search_first_url)
  have c7: "(\<forall>kvs r rs u. \<not> (tav n q = Inr (PDict kvs)
            \<and> map_of kvs ''results'' = Some (PList (PDict r # rs)) \<and> map_of r ''url'' = Some u))
      \<longrightarrow> search_with_tavily q tav w = (PStr [], w\<lparr>search_calls := search_calls w @ [q]\<rparr>)"
    unfolding n_def using search_no_hit [of tav w q] by blast
  from c1 c2 c3 c4 c5 c6 c7 show ?thesis
    unfolding Let_def n_def [symmetric] q1_def [symmetric] q2_def [symmetric]
      w1_def [symmetric] w2_def [symmetric]
    by blast
qed

lemma process_job_no_link:
  assumes "getitem j ''Title'' = Inr t" and "getitem j ''Company'' = Inr c"
    and "getitem j ''Experience'' = Inr x" and "getitem j ''Description'' = Inr d"
    and "invoke (build_graph client)
           \<lparr>Title = t, Company = c, Experience = x, Description = d,
            is_relevant = PNone, is_competitor = PNone, job_tier = PNone\<rparr>
           (w\<lparr>GLOBAL_FIELD := field\<rparr>) = (Inr result, w1)"
    and "dropped result = Inr False"
    and "get_company_career_page c tavily_client w1 = (link, w2)"
    and "\<not> truthy link"
  shows "process_job j field client tavily_client w =
           (Inr None, AList.update ''Job Tier'' (job_tier result) j, w2)"
proof -
  from assms(1-5) have "process_job j field client tavily_client w =
      after_pipeline result j tavily_client w1"
    by (rule process_job_unfold)
  also from assms(6,2,7) have "\<dots> =
     (if \<not> truthy link then (Inr None, AList.update ''Job Tier'' (job_tier result) j, w2)
      else (Inr (Some (AList.update ''Job Link'' link (AList.update ''Job Tier'' (job_tier result) j))),
            AList.update ''Job Link'' link (AList.update ''Job Tier'' (job_tier result) j), w2))"
    by (rule after_pipeline_kept)
  finally show ?thesis using assms(8) by simp
qed

lemma sample_fields:
  "getitem sample_job ''Title'' = Inr (PStr ''Data Scientist'')"
  "getitem sample_job ''Company'' = Inr (PStr ''Acme Corp'')"
  "getitem sample_job ''Experience'' = Inr (PStr ''2 years'')"
  "getitem sample_job ''Description'' = Inr (PStr ''Looking for a data scientist'')"
  "getitem sample_job ''Posted Date'' = Inr (PStr ''Today'')"
  by (simp_all add: getitem_def sample_job_def)

lemma variants_Data_Science: "variants ''Data Science'' = [''data'', ''scientist'', ''Data Science'']"
  by (simp add: variants_def FIELD_KEYWORDS_def split_def strip_def is_space_def)

lemma sample_state:
  "\<lparr>Title = PStr ''Data Scientist'', Company = PStr ''Acme Corp'', Experience = PStr ''2 years'',
    Description = PStr ''Looking for a data scientist'',
    is_relevant = PNone, is_competitor = PNone, job_tier = PNone\<rparr>
   = state_of ''Data Scientist'' ''Acme Corp'' ''2 years'' ''Looking for a data scientist''"
  by (simp add: state_of_def)

lemma sample_invoke:
  "invoke (build_graph approving)
     (state_of ''Data Scientist'' ''Acme Corp'' ''2 years'' ''Looking for a data scientist'')
     ((world0 [])\<lparr>GLOBAL_FIELD := ''Data Science''\<rparr>) =
   (Inr ((state_of ''Data Scientist'' ''Acme Corp'' ''2 years'' ''Looking for a data scientist'')
           \<lparr>is_relevant := PStr ''Yes'', is_competitor := PStr ''No'', job_tier := PStr ''Senior''\<rparr>),
    \<lparr>GLOBAL_FIELD = ''Data Science'',
      llm_calls =
        [competitor_prompt ((state_of ''Data Scientist'' ''Acme Corp'' ''2 years'' ''Looking for a data scientist'')
           \<lparr>is_relevant := PStr ''Yes''\<rparr>),
         tier_prompt ((state_of ''Data Scientist'' ''Acme Corp'' ''2 years'' ''Looking for a data scientist'')
           \<lparr>is_relevant := PStr ''Yes'', is_competitor := PStr ''No''\<rparr>)],
      search_calls = []\<rparr>)"
  by (simp add: invoke_build_graph check_relevance_def check_competitor_def determine_tier_def
      ask_def approving_def state_of_def world0_def variants_Data_Science lower_def lower_char_def upper_letters_def lower_letters_def)

lemma sample_invoke_job:
  "invoke (build_graph approving)
     \<lparr>Title = PStr ''Data Scientist'', Company = PStr ''Acme Corp'', Experience = PStr ''2 years'',
      Description = PStr ''Looking for a data scientist'',
      is_relevant = PNone, is_competitor = PNone, job_tier = PNone\<rparr>
     ((world0 [])\<lparr>GLOBAL_FIELD := ''Data Science''\<rparr>) = (Inr sample_result, sample_world)"
  unfolding sample_state sample_result_def sample_world_def by (rule sample_invoke)

lemma sample_dropped: "dropped sample_result = Inr False"
  by (simp add: sample_result_def dropped_def lower_def lower_char_def upper_letters_def lower_letters_def)

lemma sample_no_link:
  "get_company_career_page (PStr ''Acme Corp'') no_results sample_world =
     (PStr [], sample_world\<lparr>search_calls :=
        [[Fmt (PStr ''Acme Corp''), Lit '' careers''], [Fmt (PStr ''Acme Corp'')]]\<rparr>)"
  by (simp add: get_company_career_page_def search_with_tavily_def first_url_def no_results_def
      sample_world_def)

lemma sample_link:
  "get_company_career_page (PStr ''Acme Corp'') (found ''https://acme.example/careers'') sample_world =
     (PStr ''https://acme.example/careers'', sample_world\<lparr>search_calls :=
        [[Fmt (PStr ''Acme Corp''), Lit '' careers'']]\<rparr>)"
  by (simp add: get_company_career_page_def search_with_tavily_def first_url_def found_def
      sample_world_def)

text \<open>
  Claim C6. For a posting that passed both gates and whose careers page is not found,
  \<^verbatim>\<open>process_job\<close> returns \<^verbatim>\<open>None\<close>. The resolver ran once (its two searches, nothing
  more), and the loop over the rows goes on with the remaining rows and the same list of
  processed postings: nothing of this posting is appended.
\<close>

theorem enrichment_failure_drops:
  assumes "getitem j ''Title'' = Inr t" and "getitem j ''Company'' = Inr c"
    and "getitem j ''Experience'' = Inr x" and "getitem j ''Description'' = Inr d"
    and "invoke (build_graph client)
           \<lparr>Title = t, Company = c, Experience = x, Description = d,
            is_relevant = PNone, is_competitor = PNone, job_tier = PNone\<rparr>
           (w\<lparr>GLOBAL_FIELD := field\<rparr>) = (Inr result, w1)"
    and "dropped result = Inr False"
    and "get_company_career_page c tavily_client w1 = (link, w2)"
    and "\<not> truthy link"
  shows "fst (process_job j field client tavily_client w) = Inr None
     \<and> snd (snd (process_job j field client tavily_client w)) = w2
     \<and> search_calls w2 = search_calls w1 @ [[Fmt c, Lit '' careers''], [Fmt c]]
     \<and> process_rows (j # rest) field client tavily_client processed w =
         process_rows rest field client tavily_client processed w2"
proof -
  from assms have p: "process_job j field client tavily_client w =
           (Inr None, AList.update ''Job Tier'' (job_tier result) j, w2)"
    by (rule process_job_no_link)
  from assms(7,8) have s: "search_calls w2 = search_calls w1 @ [[Fmt c, Lit '' careers''], [Fmt c]]"
    by (rule career_page_no_link)
  from p have r: "process_rows (j # rest) field client tavily_client processed w =
         process_rows rest field client tavily_client processed w2"
    by simp
  from p s r show ?thesis by simp
qed

theorem enrichment_failure_drops_witness:
  "fst (process_job sample_job ''Data Science'' approving no_results (world0 [])) = Inr None
   \<and> search_calls (snd (snd (process_job sample_job ''Data Science'' approving no_results (world0 []))))
       = [[Fmt (PStr ''Acme Corp''), Lit '' careers''], [Fmt (PStr ''Acme Corp'')]]
   \<and> fst (process_rows [sample_job] ''Data Science'' approving no_results [] (world0 [])) = Inr []"
proof -
  have n: "\<not> truthy (PStr [])" by simp
  from enrichment_failure_drops
    [OF sample_fields(1-4) sample_invoke_job sample_dropped sample_no_link n, of "[]" "[]"]
  show ?thesis by (simp add: sample_world_def)
qed

text \<open>
  Claim C10. For a posting that passed both gates and whose careers page is not found,
  \<^verbatim>\<open>process_job\<close> returns \<^verbatim>\<open>None\<close>, and the caller's dictionary now holds the tier under
  "Job Tier": it differs from the dictionary passed in when that had no such key.
\<close>

theorem dropped_posting_keeps_tier:
  assumes "getitem j ''Title'' = Inr t" and "getitem j ''Company'' = Inr c"
    and "getitem j ''Experience'' = Inr x" and "getitem j ''Description'' = Inr d"
    and "invoke (build_graph client)
           \<lparr>Title = t, Company = c, Experience = x, Description = d,
            is_relevant = PNone, is_competitor = PNone, job_tier = PNone\<rparr>
           (w\<lparr>GLOBAL_FIELD := field\<rparr>) = (Inr result, w1)"
    and "dropped result = Inr False"
    and "get_company_career_page c tavily_client w1 = (link, w2)"
    and "\<not> truthy link"
  shows "process_job j field client tavily_client w =
           (Inr None, AList.update ''Job Tier'' (job_tier result) j, w2)
     \<and> map_of (fst (snd (process_job j field client tavily_client w))) ''Job Tier''
           = Some (job_tier result)
     \<and> (map_of j ''Job Tier'' = None \<longrightarrow>
           fst (snd (process_job j field client tavily_client w)) \<noteq> j)"
proof -
  from assms have p: "process_job j field client tavily_client w =
           (Inr None, AList.update ''Job Tier'' (job_tier result) j, w2)"
    by (rule process_job_no_link)
  have m: "map_of (AList.update ''Job Tier'' (job_tier result) j) ''Job Tier'' = Some (job_tier result)"
    by (simp add: AList.update_conv')
  then have "map_of j ''Job Tier'' = None \<longrightarrow> AList.update ''Job Tier'' (job_tier result) j \<noteq> j"
    by auto
  with p m show ?thesis by simp
qed

theorem dropped_posting_keeps_tier_witness:
  "process_job sample_job ''Data Science'' approving no_results (world0 []) =
     (Inr None, sample_job @ [(''Job Tier'', PStr ''Senior'')],
      sample_world\<lparr>search_calls :=
        [[Fmt (PStr ''Acme Corp''), Lit '' careers''], [Fmt (PStr ''Acme Corp'')]]\<rparr>)
   \<and> map_of sample_job ''Job Tier'' = None
   \<and> fst (snd (process_job sample_job ''Data Science'' approving no_results (world0 []))) \<noteq> sample_job"
proof -
  have n: "\<not> truthy (PStr [])" by simp
  have k: "map_of sample_job ''Job Tier'' = None" by (simp add: sample_job_def)
  have u: "AList.update ''Job Tier'' (job_tier sample_result) sample_job
             = sample_job @ [(''Job Tier'', PStr ''Senior'')]"
    by (simp add: sample_job_def sample_result_def)
  from dropped_posting_keeps_tier
    [OF sample_fields(1-4) sample_invoke_job sample_dropped sample_no_link n] k u
  show ?thesis by simp
qed

lemma after_pipeline_Some:
  assumes "after_pipeline result j tavily_client w = (Inr (Some p), j', w')"
  shows "\<exists>link. p = AList.update ''Job Link'' link (AList.update ''Job Tier'' (job_tier result) j)
           \<and> j' = p"
  using assms
  by (auto simp: after_pipeline_def Let_def split: sum.splits bool.splits prod.splits if_splits)

lemma process_job_Some:
  assumes "process_job j field client tavily_client w = (Inr (Some p), j', w')"
  shows "\<exists>result w1. after_pipeline result j tavily_client w1 = (Inr (Some p), j', w')"
  using assms
  by (auto simp: process_job_def Let_def split: sum.splits prod.splits)

lemma update_nonempty: "AList.update k v al \<noteq> []"
  by (cases al) auto

text \<open>
  Claim C9. When \<^verbatim>\<open>process_job\<close> returns a posting, it is the caller's dictionary; its
  keys are the original keys and "Job Tier" and "Job Link"; every other key has its
  original value, in particular the eight scraped fields. The loop then applies the
  recency filter to the original "Posted Date".
\<close>

theorem kept_posting_frame:
  assumes "process_job j field client tavily_client w = (Inr (Some p), j', w')"
  shows "j' = p
     \<and> fst ` set p = fst ` set j \<union> {''Job Tier'', ''Job Link''}
     \<and> (\<forall>k. k \<noteq> ''Job Tier'' \<and> k \<noteq> ''Job Link'' \<longrightarrow> map_of p k = map_of j k)
     \<and> list_all (\<lambda>k. getitem p k = getitem j k)
         [''Title'', ''Company'', ''Experience'', ''Description'', ''Posted Date'',
          ''Location'', ''Salary'', ''Skills'']
     \<and> process_rows (j # rest) field client tavily_client processed w =
         (case getitem j ''Posted Date'' of
            Inl e \<Rightarrow> (Inl e, w')
          | Inr d \<Rightarrow>
              (case is_job_recent d of
                 Inl e \<Rightarrow> (Inl e, w')
               | Inr recent \<Rightarrow>
                   process_rows rest field client tavily_client
                     (if recent then processed @ [p] else processed) w'))"
proof -
  from assms obtain result w1 where
    "after_pipeline result j tavily_client w1 = (Inr (Some p), j', w')"
    using process_job_Some by blast
  then obtain link where
    p: "p = AList.update ''Job Link'' link (AList.update ''Job Tier'' (job_tier result) j)"
    and j': "j' = p"
    using after_pipeline_Some by blast
  from p have keys: "fst ` set p = fst ` set j \<union> {''Job Tier'', ''Job Link''}"
    by (auto simp: AList.dom_update)
  from p have frame: "\<forall>k. k \<noteq> ''Job Tier'' \<and> k \<noteq> ''Job Link'' \<longrightarrow> map_of p k = map_of j k"
    by (simp add: AList.update_conv')
  then have fields: "list_all (\<lambda>k. getitem p k = getitem j k)
         [''Title'', ''Company'', ''Experience'', ''Description'', ''Posted Date'',
          ''Location'', ''Salary'', ''Skills'']"
    by (simp add: getitem_def)
  from p have ne: "p \<noteq> []" by (simp add: update_nonempty)
  from fields have date: "getitem p ''Posted Date'' = getitem j ''Posted Date''" by simp
  from assms j' ne date have loop:
    "process_rows (j # rest) field client tavily_client processed w =
         (case getitem j ''Posted Date'' of
            Inl e \<Rightarrow> (Inl e, w')
          | Inr d \<Rightarrow>
              (case is_job_recent d of
                 Inl e \<Rightarrow> (Inl e, w')
               | Inr recent \<Rightarrow>
                   process_rows rest field client tavily_client
                     (if recent then processed @ [p] else processed) w'))"
    by simp
  from j' keys frame fields loop show ?thesis by blast
qed

lemma sample_kept:
  "process_job sample_job ''Data Science'' approving (found ''https://acme.example/careers'') (world0 []) =
     (Inr (Some (sample_job @ [(''Job Tier'', PStr ''Senior''),
                               (''Job Link'', PStr ''https://acme.example/careers'')])),
      sample_job @ [(''Job Tier'', PStr ''Senior''),
                    (''Job Link'', PStr ''https://acme.example/careers'')],
      sample_world\<lparr>search_calls := [[Fmt (PStr ''Acme Corp''), Lit '' careers'']]\<rparr>)"
proof -
  have "process_job sample_job ''Data Science'' approving (found ''https://acme.example/careers'') (world0 [])
      = after_pipeline sample_result sample_job (found ''https://acme.example/careers'') sample_world"
    using sample_fields(1-4) sample_invoke_job by (rule process_job_unfold)
  also have "\<dots> =
     (Inr (Some (AList.update ''Job Link'' (PStr ''https://acme.example/careers'')
                   (AList.update ''Job Tier'' (job_tier sample_result) sample_job))),
      AList.update ''Job Link'' (PStr ''https://acme.example/careers'')
                   (AList.update ''Job Tier'' (job_tier sample_result) sample_job),
      sample_world\<lparr>search_calls := [[Fmt (PStr ''Acme Corp''), Lit '' careers'']]\<rparr>)"
    using after_pipeline_kept [OF sample_dropped sample_fields(2) sample_link] by simp
  also have "AList.update ''Job Link'' (PStr ''https://acme.example/careers'')
                   (AList.update ''Job Tier'' (job_tier sample_result) sample_job)
      = sample_job @ [(''Job Tier'', PStr ''Senior''),
                      (''Job Link'', PStr ''https://acme.example/careers'')]"
    by (simp add: sample_job_def sample_result_def)
  finally show ?thesis .
qed

theorem kept_posting_frame_witness:
  "process_job sample_job ''Data Science'' approving (found ''https://acme.example/careers'') (world0 []) =
     (Inr (Some (sample_job @ [(''Job Tier'', PStr ''Senior''),
                               (''Job Link'', PStr ''https://acme.example/careers'')])),
      sample_job @ [(''Job Tier'', PStr ''Senior''),
                    (''Job Link'', PStr ''https://acme.example/careers'')],
      sample_world\<lparr>search_calls := [[Fmt (PStr ''Acme Corp''), Lit '' careers'']]\<rparr>)
   \<and> getitem (sample_job @ [(''Job Tier'', PStr ''Senior''),
                             (''Job Link'', PStr ''https://acme.example/careers'')]) ''Posted Date''
       = Inr (PStr ''Today'')
   \<and> fst (process_rows [sample_job] ''Data Science'' approving (found ''https://acme.example/careers'')
             [] (world0 []))
       = Inr [sample_job @ [(''Job Tier'', PStr ''Senior''),
                            (''Job Link'', PStr ''https://acme.example/careers'')]]"
proof -
  have r: "is_job_recent (PStr ''Today'') = Inr True"
    by (simp add: is_job_recent_def recency_phrases_def lower_def lower_char_def upper_letters_def lower_letters_def)
  from kept_posting_frame [OF sample_kept, of "[]" "[]"] sample_kept sample_fields(5) r
  show ?thesis by simp
qed

theorem career_page_resolution_witness:
  "get_company_career_page (PStr ''Acme Corp'') (found ''https://acme.example/careers'') sample_world =
     (PStr ''https://acme.example/careers'',
      sample_world\<lparr>search_calls := [[Fmt (PStr ''Acme Corp''), Lit '' careers'']]\<rparr>)
   \<and> get_company_career_page (PStr ''Acme Corp'') no_results sample_world =
     (PStr [],
      sample_world\<lparr>search_calls :=
        [[Fmt (PStr ''Acme Corp''), Lit '' careers''], [Fmt (PStr ''Acme Corp'')]]\<rparr>)
   \<and> get_company_career_page (PStr ''Acme Corp'') search_down sample_world =
     (PStr [],
      sample_world\<lparr>search_calls :=
        [[Fmt (PStr ''Acme Corp''), Lit '' careers''], [Fmt (PStr ''Acme Corp'')]]\<rparr>)"
proof -
  have e: "search_calls sample_world = []" by (simp add: sample_world_def)
  have f: "found ''https://acme.example/careers'' (length (search_calls sample_world))
             [Fmt (PStr ''Acme Corp''), Lit '' careers'']
           = Inr (PDict [(''results'', PList [PDict [(''url'', PStr ''https://acme.example/careers'')]])])
         \<and> map_of [(''results'', PList [PDict [(''url'', PStr ''https://acme.example/careers'')]])] ''results''
           = Some (PList (PDict [(''url'', PStr ''https://acme.example/careers'')] # []))
         \<and> map_of [(''url'', PStr ''https://acme.example/careers'')] ''url''
           = Some (PStr ''https://acme.example/careers'')
         \<and> truthy (PStr ''https://acme.example/careers'')"
    by (simp add: found_def)
  from career_page_resolution
    [where company = "PStr ''Acme Corp''" and tav = "found ''https://acme.example/careers''"
       and w = sample_world
       and kvs = "[(''results'', PList [PDict [(''url'', PStr ''https://acme.example/careers'')]])]"
       and r = "[(''url'', PStr ''https://acme.example/careers'')]" and rs = "[]"
       and u = "PStr ''https://acme.example/careers''", unfolded Let_def] f
  have "get_company_career_page (PStr ''Acme Corp'') (found ''https://acme.example/careers'') sample_world =
     (PStr ''https://acme.example/careers'',
      sample_world\<lparr>search_calls := search_calls sample_world @
         [[Fmt (PStr ''Acme Corp''), Lit '' careers'']]\<rparr>)"
    by blast
  with e have one: "get_company_career_page (PStr ''Acme Corp'') (found ''https://acme.example/careers'') sample_world =
     (PStr ''https://acme.example/careers'',
      sample_world\<lparr>search_calls := [[Fmt (PStr ''Acme Corp''), Lit '' careers'']]\<rparr>)"
    by simp
  have n: "(\<forall>kvs r rs u. \<not> (no_results (length (search_calls sample_world))
                [Fmt (PStr ''Acme Corp''), Lit '' careers''] = Inr (PDict kvs)
            \<and> map_of kvs ''results'' = Some (PList (PDict r # rs)) \<and> map_of r ''url'' = Some u))
         \<and> (\<forall>kvs r rs u. \<not> (no_results (Suc (length (search_calls sample_world)))
                [Fmt (PStr ''Acme Corp'')] = Inr (PDict kvs)
            \<and> map_of kvs ''results'' = Some (PList (PDict r # rs)) \<and> map_of r ''url'' = Some u))"
    by (auto simp: no_results_def)
  from career_page_resolution
    [where company = "PStr ''Acme Corp''" and tav = no_results and w = sample_world,
       unfolded Let_def] n
  have "get_company_career_page (PStr ''Acme Corp'') no_results sample_world =
     (PStr [],
      sample_world\<lparr>search_calls := search_calls sample_world @
        [[Fmt (PStr ''Acme Corp''), Lit '' careers''], [Fmt (PStr ''Acme Corp'')]]\<rparr>)"
    by blast
  with e have two: "get_company_career_page (PStr ''Acme Corp'') no_results sample_world =
     (PStr [],
      sample_world\<lparr>search_calls :=
        [[Fmt (PStr ''Acme Corp''), Lit '' careers''], [Fmt (PStr ''Acme Corp'')]]\<rparr>)"
    by simp
  have d: "search_down (length (search_calls sample_world))
               [Fmt (PStr ''Acme Corp''), Lit '' careers''] = Inl CapabilityError
         \<and> search_down (Suc (length (search_calls sample_world)))
               [Fmt (PStr ''Acme Corp'')] = Inl CapabilityError"
    by (simp add: search_down_def)
  from career_page_resolution
    [where company = "PStr ''Acme Corp''" and tav = search_down and w = sample_world
       and e = CapabilityError and e' = CapabilityError, unfolded Let_def] d
  have "get_company_career_page (PStr ''Acme Corp'') search_down sample_world =
     (PStr [],
      sample_world\<lparr>search_calls := search_calls sample_world @
        [[Fmt (PStr ''Acme Corp''), Lit '' careers''], [Fmt (PStr ''Acme Corp'')]]\<rparr>)"
    by blast
  with e have three: "get_company_career_page (PStr ''Acme Corp'') search_down sample_world =
     (PStr [],
      sample_world\<lparr>search_calls :=
        [[Fmt (PStr ''Acme Corp''), Lit '' careers''], [Fmt (PStr ''Acme Corp'')]]\<rparr>)"
    by simp
  from one two three show ?thesis by blast
qed


theorem pipeline_order_witness:
  "invoke (build_graph approving)
     (state_of ''Data Scientist'' ''Acme Corp'' ''2 years'' ''Looking for a data scientist'')
     ((world0 [])\<lparr>GLOBAL_FIELD := ''FinTech''\<rparr>) =
     (Inr ((state_of ''Data Scientist'' ''Acme Corp'' ''2 years'' ''Looking for a data scientist'')
             \<lparr>is_relevant := PStr ''Yes'', is_competitor := PStr ''No'', job_tier := PStr ''Senior''\<rparr>),
      (world0 [])\<lparr>GLOBAL_FIELD := ''FinTech'',
        llm_calls :=
          [relevance_prompt
             (state_of ''Data Scientist'' ''Acme Corp'' ''2 years'' ''Looking for a data scientist'')
             ''FinTech'',
           competitor_prompt
             ((state_of ''Data Scientist'' ''Acme Corp'' ''2 years'' ''Looking for a data scientist'')
                \<lparr>is_relevant := PStr ''Yes''\<rparr>),
           tier_prompt
             ((state_of ''Data Scientist'' ''Acme Corp'' ''2 years'' ''Looking for a data scientist'')
                \<lparr>is_relevant := PStr ''Yes'', is_competitor := PStr ''No''\<rparr>)]\<rparr>)
   \<and> process_job sample_job ''FinTech'' approving no_results (world0 []) =
       after_pipeline
         ((state_of ''Data Scientist'' ''Acme Corp'' ''2 years'' ''Looking for a data scientist'')
             \<lparr>is_relevant := PStr ''Yes'', is_competitor := PStr ''No'', job_tier := PStr ''Senior''\<rparr>)
         sample_job no_results
         ((world0 [])\<lparr>GLOBAL_FIELD := ''FinTech'',
            llm_calls :=
              [relevance_prompt
                 (state_of ''Data Scientist'' ''Acme Corp'' ''2 years'' ''Looking for a data scientist'')
                 ''FinTech'',
               competitor_prompt
                 ((state_of ''Data Scientist'' ''Acme Corp'' ''2 years'' ''Looking for a data scientist'')
                    \<lparr>is_relevant := PStr ''Yes''\<rparr>),
               tier_prompt
                 ((state_of ''Data Scientist'' ''Acme Corp'' ''2 years'' ''Looking for a data scientist'')
                    \<lparr>is_relevant := PStr ''Yes'', is_competitor := PStr ''No''\<rparr>)]\<rparr>)"
proof -
  have t: "Title (state_of ''Data Scientist'' ''Acme Corp'' ''2 years'' ''Looking for a data scientist'')
             = PStr ''Data Scientist''"
    by (simp add: state_of_def)
  have d: "Description (state_of ''Data Scientist'' ''Acme Corp'' ''2 years'' ''Looking for a data scientist'')
             = PStr ''Looking for a data scientist''"
    by (simp add: state_of_def)
  have slow: "\<not> list_ex (\<lambda>kw. py_in kw (lower (''Data Scientist'' @ '' '' @ ''Looking for a data scientist'')))
                 (variants (GLOBAL_FIELD ((world0 [])\<lparr>GLOBAL_FIELD := ''FinTech''\<rparr>)))"
    by (simp add: variants_FinTech lower_def lower_char_def upper_letters_def lower_letters_def)
  have h: "getitem sample_job ''Title''
             = Inr (Title (state_of ''Data Scientist'' ''Acme Corp'' ''2 years'' ''Looking for a data scientist''))
     \<and> getitem sample_job ''Company''
             = Inr (Company (state_of ''Data Scientist'' ''Acme Corp'' ''2 years'' ''Looking for a data scientist''))
     \<and> getitem sample_job ''Experience''
             = Inr (Experience (state_of ''Data Scientist'' ''Acme Corp'' ''2 years'' ''Looking for a data scientist''))
     \<and> getitem sample_job ''Description''
             = Inr (Description (state_of ''Data Scientist'' ''Acme Corp'' ''2 years'' ''Looking for a data scientist''))
     \<and> is_relevant (state_of ''Data Scientist'' ''Acme Corp'' ''2 years'' ''Looking for a data scientist'') = PNone
     \<and> is_competitor (state_of ''Data Scientist'' ''Acme Corp'' ''2 years'' ''Looking for a data scientist'') = PNone
     \<and> job_tier (state_of ''Data Scientist'' ''Acme Corp'' ''2 years'' ''Looking for a data scientist'') = PNone"
    by (simp add: sample_fields state_of_def)
  from pipeline_order [OF t d, where client = approving
      and w = "(world0 [])\<lparr>GLOBAL_FIELD := ''FinTech''\<rparr>" and j = sample_job
      and ?w0.0 = "world0 []" and field = "''FinTech''" and tavily_client = no_results] slow h
  show ?thesis
    by (simp add: Let_def approving_def world0_def)
qed




end
